theory Spec2Isabelle
  imports Complex_Main
begin

section \<open>Transaction annotation: data model\<close>

text \<open>
  The development embeds \<^verbatim>\<open>src/background/services/enrichment/transactions.ts\<close>:
  \<^verbatim>\<open>annotationsFromLogs\<close> and the entry point \<^verbatim>\<open>resolveTransactionAnnotation\<close>.
  JavaScript \<^verbatim>\<open>bigint\<close> values are unbounded and are modelled by \<open>int\<close>; an
  object key that is absent or holds \<^verbatim>\<open>undefined\<close> is an \<open>option\<close> field with
  value \<open>None\<close>; a promise that rejects is the left injection of \<open>error + 'a\<close>.
\<close>

type_synonym HexString = string

datatype error = Rejected string

text \<open>A value that may be \<^verbatim>\<open>undefined\<close>, \<^verbatim>\<open>null\<close> or defined (the call-data).\<close>

datatype 'a nullable = Undefined | Null | Defined 'a

record AssetMetadata =
  logoURL :: "string option"

record FungibleAsset =
  symbol :: string
  decimals :: nat

record SmartContractFungibleAsset = FungibleAsset +
  asset_contractAddress :: HexString
  metadata :: "AssetMetadata option"

text \<open>
  Modelled from the spec: the asset types and \<^verbatim>\<open>isSmartContractFungibleAsset\<close> live in
  \<^verbatim>\<open>assets.ts\<close>, which is not under src/. The catalog "includes non-fungible and native
  entries; this core filters to fungible, contract-backed ones", and catalog entries are
  "a closed tagged-variant type, so matching is a simple variant check": the test
  \<^verbatim>\<open>isSmartContractFungibleAsset(asset)\<close> is the match on \<open>SmartContractAsset\<close>.
\<close>

datatype AnyAsset =
  BaseAsset FungibleAsset
  | SmartContractAsset SmartContractFungibleAsset
  | OtherAsset string

text \<open>The decimal precision of an asset; an entry that is not fungible has none.\<close>

fun asset_decimals :: "AnyAsset \<Rightarrow> nat" where
  "asset_decimals (BaseAsset b) = decimals b"
| "asset_decimals (SmartContractAsset a) = decimals a"
| "asset_decimals (OtherAsset s) = 0"

record AssetAmount =
  asset :: AnyAsset
  amount :: int

record EnrichedAssetAmount = AssetAmount +
  decimalAmount :: rat

record EVMNetwork =
  network_name :: string
  chainID :: string
  baseAsset :: FungibleAsset

record AddressOnNetwork =
  address :: HexString
  network :: EVMNetwork

record AccountBalance =
  balance_assetAmount :: AssetAmount

record EVMBlock =
  block_hash :: HexString
  block_timestamp :: int

record EVMLog =
  log_contractAddress :: HexString
  log_data :: HexString
  log_topics :: "HexString list"

record ERC20TransferLog =
  transfer_contractAddress :: HexString
  transfer_amount :: int
  transfer_senderAddress :: HexString
  transfer_recipientAddress :: HexString

text \<open>
  The transaction argument: an \<^verbatim>\<open>AnyEVMTransaction\<close> or a partial EIP-1559 request with
  \<^verbatim>\<open>from\<close> and an optional \<^verbatim>\<open>blockHash\<close>. The gas fields and the block hash are only
  tested for truthiness, which \<^verbatim>\<open>null\<close> and \<^verbatim>\<open>undefined\<close> fail alike, so both are
  \<open>None\<close>.
\<close>

record Transaction =
  tx_from :: HexString
  tx_to :: "HexString option"
  tx_input :: "HexString nullable"
  tx_value :: "int option"
  gasLimit :: "int option"
  maxFeePerGas :: "int option"
  maxPriorityFeePerGas :: "int option"
  blockHash :: "HexString option"
  logs :: "EVMLog list option"

text \<open>What \<^verbatim>\<open>parseERC20Tx\<close> returns: the decoded function name with its named arguments.\<close>

datatype ERC20Tx =
  Transfer (arg_to: HexString) (arg_amount: int)
  | TransferFrom (arg_from: HexString) (arg_to: HexString) (arg_amount: int)
  | Approve (arg_spender: HexString) (arg_value: int)
  | OtherFunction string

record NameRecord =
  resolved_name :: string

subsection \<open>Collaborators\<close>

text \<open>
  The three services are only called through the methods below. Each call is awaited, so
  each may reject.
\<close>

record ChainService =
  getAccountsToTrack :: "error + AddressOnNetwork list"
  getLatestBaseAccountBalance :: "AddressOnNetwork \<Rightarrow> error + AccountBalance"
  getBlockData :: "EVMNetwork \<Rightarrow> HexString \<Rightarrow> error + EVMBlock"

record IndexingService =
  getCachedAssets :: "EVMNetwork \<Rightarrow> error + AnyAsset list"

record NameService =
  lookUpName :: "AddressOnNetwork \<Rightarrow> error + NameRecord option"

text \<open>
  The ABI decoding of \<^verbatim>\<open>lib/erc20.ts\<close> and \<^verbatim>\<open>lib/wrappedAsset.ts\<close> is not under src/
  and is taken as a parameter: the call-data decoder, and for each of the two log shapes
  the decoder of a single log.
\<close>

record Decoders =
  parseERC20Tx :: "HexString \<Rightarrow> ERC20Tx option"
  decodeERC20TransferLog :: "EVMLog \<Rightarrow> ERC20TransferLog option"
  decodeWrappedLog :: "EVMLog \<Rightarrow> ERC20TransferLog option"

subsection \<open>The annotation\<close>

datatype AnnotationType =
  ContractInteraction | ContractDeployment | AssetTransfer | AssetApproval

datatype Warning = InsufficientFunds | SendToToken

text \<open>
  The annotation is a JavaScript object built by spreading; every key that some branch
  may set is a field here, \<open>None\<close> when the key is absent or \<^verbatim>\<open>undefined\<close>.
\<close>

record AnnotationFields =
  atype :: AnnotationType
  timestamp :: int
  blockTimestamp :: "int option"
  warnings :: "Warning list option"
  transactionLogoURL :: "string option"
  contractName :: "string option"
  senderAddress :: "HexString option"
  recipientAddress :: "HexString option"
  recipientName :: "string option"
  assetAmount :: "EnrichedAssetAmount option"
  spenderAddress :: "HexString option"
  spenderName :: "string option"

datatype TransactionAnnotation =
  Annotation (fields: AnnotationFields) (subannotations: "TransactionAnnotation list option")

section \<open>Helpers imported by the source\<close>

text \<open>
  Modelled from the spec: the lower-casing of one character, for \<^verbatim>\<open>normalizeEVMAddress\<close>
  of \<^verbatim>\<open>lib/utils\<close>, which is not under src/. "All on-chain addresses must be normalized
  before comparison - mixed-case checksummed and lowercase forms must match".
\<close>

definition toLowerCase_char :: "char \<Rightarrow> char" where
  "toLowerCase_char c =
     (case map_of (zip ''ABCDEFGHIJKLMNOPQRSTUVWXYZ'' ''abcdefghijklmnopqrstuvwxyz'') c of
        None \<Rightarrow> c
      | Some l \<Rightarrow> l)"

text \<open>
  Modelled from the spec: \<^verbatim>\<open>normalizeEVMAddress\<close> (\<^verbatim>\<open>lib/utils\<close>, not under src/), the
  lower-case form of an address.
\<close>

definition normalizeEVMAddress :: "HexString \<Rightarrow> HexString" where
  "normalizeEVMAddress a = map toLowerCase_char a"

text \<open>
  Modelled from the spec: \<^verbatim>\<open>sameEVMAddress\<close> (\<^verbatim>\<open>lib/utils\<close>, not under src/). "Address
  comparison is case-insensitive".
\<close>

definition sameEVMAddress :: "HexString \<Rightarrow> HexString \<Rightarrow> bool" where
  "sameEVMAddress a b = (normalizeEVMAddress a = normalizeEVMAddress b)"

text \<open>
  Modelled from the spec: \<^verbatim>\<open>enrichAssetAmountWithDecimalValues\<close> lives in
  \<^verbatim>\<open>redux-slices/utils/asset-utils\<close>, which is not under src/. The enriched form
  "additionally carries the amount divided by 10^decimals", and "the division must not
  lose more precision than requested": the exact quotient loses none, whatever precision
  the caller asks for.
\<close>

definition enrichAssetAmountWithDecimalValues :: "AssetAmount \<Rightarrow> nat \<Rightarrow> EnrichedAssetAmount" where
  "enrichAssetAmountWithDecimalValues aa desiredDecimals =
     \<lparr>asset = asset aa, amount = amount aa,
      decimalAmount = of_int (amount aa) / 10 ^ asset_decimals (asset aa)\<rparr>"

text \<open>
  Modelled from the spec: \<^verbatim>\<open>parseLogsForERC20Transfers\<close> lives in \<^verbatim>\<open>lib/erc20.ts\<close>, which
  is not under src/. It scans the list of logs and extracts a transfer record from every
  standard transfer event; "unrecognized logs are silently skipped".
\<close>

definition parseLogsForERC20Transfers :: "Decoders \<Rightarrow> EVMLog list \<Rightarrow> ERC20TransferLog list" where
  "parseLogsForERC20Transfers abi ls = List.map_filter (decodeERC20TransferLog abi) ls"

text \<open>
  Modelled from the spec: \<^verbatim>\<open>parseLogsForWrappedDepositsAndWithdrawals\<close> lives in
  \<^verbatim>\<open>lib/wrappedAsset.ts\<close>, which is not under src/. It scans the list of logs and extracts
  a transfer record from every wrapped-asset deposit or withdrawal event, "each producing
  a transfer record"; "unrecognized logs are silently skipped".
\<close>

definition parseLogsForWrappedDepositsAndWithdrawals ::
  "Decoders \<Rightarrow> EVMLog list \<Rightarrow> ERC20TransferLog list" where
  "parseLogsForWrappedDepositsAndWithdrawals abi ls = List.map_filter (decodeWrappedLog abi) ls"

text \<open>
  Modelled from the spec: \<^verbatim>\<open>getERC20LogsForAddresses\<close> lives in \<^verbatim>\<open>enrichment/utils\<close>,
  which is not under src/. It "returns only transfers whose sender or recipient is in the
  given address set (case-insensitive)".
\<close>

definition getERC20LogsForAddresses ::
  "ERC20TransferLog list \<Rightarrow> HexString list \<Rightarrow> ERC20TransferLog list" where
  "getERC20LogsForAddresses transfers addresses =
     filter (\<lambda>t. normalizeEVMAddress (transfer_senderAddress t) \<in> set (map normalizeEVMAddress addresses)
               \<or> normalizeEVMAddress (transfer_recipientAddress t) \<in> set (map normalizeEVMAddress addresses))
       transfers"

text \<open>
  Modelled from the spec: \<^verbatim>\<open>getDistinctRecipentAddressesFromERC20Logs\<close> lives in
  \<^verbatim>\<open>enrichment/utils\<close>, which is not under src/. It gives "all distinct recipient
  addresses among the filtered transfers", here in the order of their first occurrence.
\<close>

definition getDistinctRecipentAddressesFromERC20Logs :: "ERC20TransferLog list \<Rightarrow> HexString list" where
  "getDistinctRecipentAddressesFromERC20Logs transfers =
     rev (remdups (rev (map transfer_recipientAddress transfers)))"

text \<open>
  \<^verbatim>\<open>assets.find(asset => isSmartContractFungibleAsset(asset) &&
  sameEVMAddress(asset.contractAddress, contractAddress))\<close>: the first match, if any.
\<close>

fun findMatchingFungibleAsset :: "AnyAsset list \<Rightarrow> HexString \<Rightarrow> SmartContractFungibleAsset option" where
  "findMatchingFungibleAsset [] contractAddress = None"
| "findMatchingFungibleAsset (SmartContractAsset a # rest) contractAddress =
     (if sameEVMAddress (asset_contractAddress a) contractAddress then Some a
      else findMatchingFungibleAsset rest contractAddress)"
| "findMatchingFungibleAsset (other # rest) contractAddress =
     findMatchingFungibleAsset rest contractAddress"

text \<open>JavaScript truthiness of an optional bigint and of an optional string.\<close>

definition truthy_bigint :: "int option \<Rightarrow> bool" where
  "truthy_bigint v = (case v of None \<Rightarrow> False | Some n \<Rightarrow> n \<noteq> 0)"

definition truthy_string :: "string option \<Rightarrow> bool" where
  "truthy_string v = (case v of None \<Rightarrow> False | Some s \<Rightarrow> s \<noteq> [])"

section \<open>annotationsFromLogs\<close>

text \<open>
  Lines 54-69: one lookup per address, all settled; rejected lookups and lookups without
  a name are filtered out, the rest become the entries of an object keyed by the
  normalised address (\<^verbatim>\<open>Object.fromEntries\<close>: a later entry overrides an earlier one).
\<close>

definition lookUpNameEntry ::
  "NameService \<Rightarrow> EVMNetwork \<Rightarrow> HexString \<Rightarrow> (HexString \<times> string) option" where
  "lookUpNameEntry nameService net addr =
     (case lookUpName nameService \<lparr>address = addr, network = net\<rparr> of
        Inl e \<Rightarrow> None
      | Inr None \<Rightarrow> None
      | Inr (Some r) \<Rightarrow> Some (normalizeEVMAddress addr, resolved_name r))"

definition namesByAddress ::
  "NameService \<Rightarrow> EVMNetwork \<Rightarrow> HexString list \<Rightarrow> (HexString \<rightharpoonup> string)" where
  "namesByAddress nameService net addresses =
     map_of (rev (List.map_filter (lookUpNameEntry nameService net) addresses))"

text \<open>Lines 72-106: the body of the \<^verbatim>\<open>flatMap\<close>, an empty or a one-element list.\<close>

definition subannotationsOfTransfer ::
  "AnyAsset list \<Rightarrow> (HexString \<rightharpoonup> string) \<Rightarrow> nat \<Rightarrow> int \<Rightarrow> EVMBlock option \<Rightarrow>
   ERC20TransferLog \<Rightarrow> TransactionAnnotation list" where
  "subannotationsOfTransfer assets names desiredDecimals resolvedTime block t =
     (case findMatchingFungibleAsset assets (transfer_contractAddress t) of
        None \<Rightarrow> []
      | Some matchingFungibleAsset \<Rightarrow>
          [Annotation
             \<lparr>atype = AssetTransfer,
              timestamp = resolvedTime,
              blockTimestamp = map_option block_timestamp block,
              warnings = None,
              transactionLogoURL = None,
              contractName = None,
              senderAddress = Some (transfer_senderAddress t),
              recipientAddress = Some (transfer_recipientAddress t),
              recipientName = names (normalizeEVMAddress (transfer_recipientAddress t)),
              assetAmount = Some (enrichAssetAmountWithDecimalValues
                \<lparr>asset = SmartContractAsset matchingFungibleAsset, amount = transfer_amount t\<rparr>
                desiredDecimals),
              spenderAddress = None,
              spenderName = None\<rparr>
             None])"

definition tokenTransferLogs :: "Decoders \<Rightarrow> EVMLog list \<Rightarrow> ERC20TransferLog list" where
  "tokenTransferLogs abi ls =
     parseLogsForERC20Transfers abi ls @ parseLogsForWrappedDepositsAndWithdrawals abi ls"

definition annotationsFromLogs ::
  "ChainService \<Rightarrow> IndexingService \<Rightarrow> NameService \<Rightarrow> Decoders \<Rightarrow> EVMLog list \<Rightarrow> EVMNetwork \<Rightarrow>
   nat \<Rightarrow> int \<Rightarrow> EVMBlock option \<Rightarrow> error + TransactionAnnotation list" where
  "annotationsFromLogs chainService indexingService nameService abi ls net desiredDecimals
     resolvedTime block =
     (case getCachedAssets indexingService net of
        Inl e \<Rightarrow> Inl e
      | Inr assets \<Rightarrow>
          (case getAccountsToTrack chainService of
             Inl e \<Rightarrow> Inl e
           | Inr accounts \<Rightarrow>
               (let accountAddresses = map address accounts;
                    transfers = tokenTransferLogs abi ls;
                    relevantTransferLogs = getERC20LogsForAddresses transfers accountAddresses;
                    names = namesByAddress nameService net
                      (getDistinctRecipentAddressesFromERC20Logs relevantTransferLogs)
                in Inr (concat (map
                     (subannotationsOfTransfer assets names desiredDecimals resolvedTime block)
                     transfers)))))"

section \<open>resolveTransactionAnnotation\<close>

text \<open>Lines 130-134: by default, a contract interaction stamped with the current time.\<close>

definition defaultAnnotation :: "int \<Rightarrow> AnnotationFields" where
  "defaultAnnotation now =
     \<lparr>atype = ContractInteraction, timestamp = now, blockTimestamp = None, warnings = None,
      transactionLogoURL = None, contractName = None, senderAddress = None,
      recipientAddress = None, recipientName = None, assetAmount = None,
      spenderAddress = None, spenderName = None\<rparr>"

text \<open>
  Lines 142-156: the affordability check of a transaction request. The three gas fields
  are tested for truthiness, so a field that is \<^verbatim>\<open>0n\<close> skips the check as an absent
  one does. \<^verbatim>\<open>warnings ??= []\<close> followed by \<^verbatim>\<open>push\<close> appends to the list.
\<close>

definition pushWarning :: "Warning \<Rightarrow> AnnotationFields \<Rightarrow> AnnotationFields" where
  "pushWarning w a =
     a\<lparr>warnings := Some ((case warnings a of None \<Rightarrow> [] | Some ws \<Rightarrow> ws) @ [w])\<rparr>"

definition checkFunds ::
  "ChainService \<Rightarrow> EVMNetwork \<Rightarrow> Transaction \<Rightarrow> AnnotationFields \<Rightarrow> error + AnnotationFields" where
  "checkFunds chainService net tx txAnnotation =
     (if truthy_bigint (gasLimit tx) \<and> truthy_bigint (maxFeePerGas tx)
         \<and> truthy_bigint (maxPriorityFeePerGas tx)
      then
        (let gasFee = the (gasLimit tx) * the (maxFeePerGas tx) in
         case getLatestBaseAccountBalance chainService \<lparr>address = tx_from tx, network = net\<rparr> of
           Inl e \<Rightarrow> Inl e
         | Inr balance \<Rightarrow>
             (let baseAssetBalance = amount (balance_assetAmount balance) in
              if gasFee + (case tx_value tx of None \<Rightarrow> 0 | Some v \<Rightarrow> v) > baseAssetBalance
              then Inr (pushWarning InsufficientFunds txAnnotation)
              else Inr txAnnotation))
      else Inr txAnnotation)"

text \<open>Lines 159-165: a mined transaction gets its block and the block's timestamp.\<close>

definition fetchBlock ::
  "ChainService \<Rightarrow> EVMNetwork \<Rightarrow> Transaction \<Rightarrow> AnnotationFields \<Rightarrow>
   error + (EVMBlock option \<times> AnnotationFields)" where
  "fetchBlock chainService net tx txAnnotation =
     (if truthy_string (blockHash tx)
      then
        (case getBlockData chainService net (the (blockHash tx)) of
           Inl e \<Rightarrow> Inl e
         | Inr block \<Rightarrow> Inr (Some block, txAnnotation\<lparr>blockTimestamp := Some (block_timestamp block)\<rparr>))
      else Inr (None, txAnnotation))"

text \<open>\<^verbatim>\<open>(await nameService.lookUpName(...)) ?? { name: undefined }\<close>, then its \<^verbatim>\<open>name\<close>.\<close>

definition lookUpNameOf ::
  "NameService \<Rightarrow> EVMNetwork \<Rightarrow> HexString \<Rightarrow> error + string option" where
  "lookUpNameOf nameService net addr =
     (case lookUpName nameService \<lparr>address = addr, network = net\<rparr> of
        Inl e \<Rightarrow> Inl e
      | Inr r \<Rightarrow> Inr (map_option resolved_name r))"

text \<open>\<^verbatim>\<open>matchingFungibleAsset?.metadata?.logoURL\<close>.\<close>

definition logoURLOf :: "SmartContractFungibleAsset option \<Rightarrow> string option" where
  "logoURLOf a = Option.bind (Option.bind a metadata) logoURL"

text \<open>Lines 173-177: the call-data is \<^verbatim>\<open>null\<close>, \<^verbatim>\<open>"0x"\<close> or \<^verbatim>\<open>undefined\<close>.\<close>

fun noInput :: "HexString nullable \<Rightarrow> bool" where
  "noInput Null = True"
| "noInput Undefined = True"
| "noInput (Defined s) = (s = ''0x'')"

fun isTransferCall :: "ERC20Tx option \<Rightarrow> bool" where
  "isTransferCall (Some (Transfer t a)) = True"
| "isTransferCall (Some (TransferFrom f t a)) = True"
| "isTransferCall other = False"

fun isApproveCall :: "ERC20Tx option \<Rightarrow> bool" where
  "isApproveCall (Some (Approve s v)) = True"
| "isApproveCall other = False"

text \<open>\<^verbatim>\<open>erc20Tx.args.from ?? transaction.from\<close>: only \<^verbatim>\<open>transferFrom\<close> has a \<^verbatim>\<open>from\<close>.\<close>

fun senderOfCall :: "ERC20Tx \<Rightarrow> HexString \<Rightarrow> HexString" where
  "senderOfCall (TransferFrom f t a) txFrom = f"
| "senderOfCall other txFrom = txFrom"

text \<open>Lines 167-297: the classification of the primary transaction.\<close>

definition classify ::
  "IndexingService \<Rightarrow> NameService \<Rightarrow> Decoders \<Rightarrow> EVMNetwork \<Rightarrow> Transaction \<Rightarrow> nat \<Rightarrow>
   AnnotationFields \<Rightarrow> error + AnnotationFields" where
  "classify indexingService nameService abi net tx desiredDecimals txAnnotation =
     (case tx_to tx of
        None \<Rightarrow> Inr (txAnnotation\<lparr>atype := ContractDeployment\<rparr>)
      | Some to \<Rightarrow>
          if noInput (tx_input tx) then
            (case lookUpNameOf nameService net to of
               Inl e \<Rightarrow> Inl e
             | Inr toName \<Rightarrow>
                 (case tx_value tx of
                    Some v \<Rightarrow>
                      Inr (txAnnotation
                        \<lparr>atype := AssetTransfer,
                         senderAddress := Some (tx_from tx),
                         recipientName := toName,
                         recipientAddress := Some to,
                         assetAmount := Some (enrichAssetAmountWithDecimalValues
                           \<lparr>asset = BaseAsset (baseAsset net), amount = v\<rparr> desiredDecimals)\<rparr>)
                  | None \<Rightarrow> Inr (txAnnotation\<lparr>contractName := toName\<rparr>)))
          else
            (case getCachedAssets indexingService net of
               Inl e \<Rightarrow> Inl e
             | Inr assets \<Rightarrow>
                 (let matchingFungibleAsset = findMatchingFungibleAsset assets to;
                      logo = logoURLOf matchingFungibleAsset;
                      erc20Tx = (case tx_input tx of Defined i \<Rightarrow> parseERC20Tx abi i | _ \<Rightarrow> None)
                  in
                  if matchingFungibleAsset \<noteq> None \<and> isTransferCall erc20Tx then
                    (case lookUpNameOf nameService net (arg_to (the erc20Tx)) of
                       Inl e \<Rightarrow> Inl e
                     | Inr toName \<Rightarrow>
                         (let a = txAnnotation
                            \<lparr>atype := AssetTransfer,
                             transactionLogoURL := logo,
                             senderAddress := Some (senderOfCall (the erc20Tx) (tx_from tx)),
                             recipientAddress := Some (arg_to (the erc20Tx)),
                             recipientName := toName,
                             assetAmount := Some (enrichAssetAmountWithDecimalValues
                               \<lparr>asset = SmartContractAsset (the matchingFungibleAsset),
                                amount = arg_amount (the erc20Tx)\<rparr> desiredDecimals)\<rparr>
                          in
                          if sameEVMAddress (arg_to (the erc20Tx)) to
                          then Inr (a\<lparr>warnings := Some [SendToToken]\<rparr>)
                          else Inr a))
                  else if matchingFungibleAsset \<noteq> None \<and> isApproveCall erc20Tx then
                    (case lookUpNameOf nameService net (arg_spender (the erc20Tx)) of
                       Inl e \<Rightarrow> Inl e
                     | Inr spenderName' \<Rightarrow>
                         Inr (txAnnotation
                           \<lparr>atype := AssetApproval,
                            transactionLogoURL := logo,
                            spenderAddress := Some (arg_spender (the erc20Tx)),
                            spenderName := spenderName',
                            assetAmount := Some (enrichAssetAmountWithDecimalValues
                              \<lparr>asset = SmartContractAsset (the matchingFungibleAsset),
                               amount = arg_value (the erc20Tx)\<rparr> desiredDecimals)\<rparr>))
                  else
                    (case lookUpNameOf nameService net to of
                       Inl e \<Rightarrow> Inl e
                     | Inr toName \<Rightarrow>
                         Inr (txAnnotation
                           \<lparr>atype := ContractInteraction,
                            transactionLogoURL := logo,
                            contractName := toName\<rparr>)))))"

text \<open>
  Lines 300-315: the sub-annotations of the logs, attached only when there are some.
\<close>

definition attachSubannotations ::
  "ChainService \<Rightarrow> IndexingService \<Rightarrow> NameService \<Rightarrow> Decoders \<Rightarrow> EVMNetwork \<Rightarrow> Transaction \<Rightarrow>
   nat \<Rightarrow> EVMBlock option \<Rightarrow> AnnotationFields \<Rightarrow> error + TransactionAnnotation" where
  "attachSubannotations chainService indexingService nameService abi net tx desiredDecimals
     block txAnnotation =
     (case logs tx of
        None \<Rightarrow> Inr (Annotation txAnnotation None)
      | Some ls \<Rightarrow>
          (case annotationsFromLogs chainService indexingService nameService abi ls net
                  desiredDecimals (timestamp txAnnotation) block of
             Inl e \<Rightarrow> Inl e
           | Inr subs \<Rightarrow>
               if length subs > 0 then Inr (Annotation txAnnotation (Some subs))
               else Inr (Annotation txAnnotation None)))"

text \<open>
  The entry point. \<open>now\<close> is the value of \<^verbatim>\<open>Date.now()\<close> read at line 132.
\<close>

definition resolveTransactionAnnotation ::
  "ChainService \<Rightarrow> IndexingService \<Rightarrow> NameService \<Rightarrow> Decoders \<Rightarrow> EVMNetwork \<Rightarrow> Transaction \<Rightarrow>
   nat \<Rightarrow> int \<Rightarrow> error + TransactionAnnotation" where
  "resolveTransactionAnnotation chainService indexingService nameService abi net tx
     desiredDecimals now =
     (case checkFunds chainService net tx (defaultAnnotation now) of
        Inl e \<Rightarrow> Inl e
      | Inr a1 \<Rightarrow>
          (case fetchBlock chainService net tx a1 of
             Inl e \<Rightarrow> Inl e
           | Inr (block, a2) \<Rightarrow>
               (case classify indexingService nameService abi net tx desiredDecimals a2 of
                  Inl e \<Rightarrow> Inl e
                | Inr a3 \<Rightarrow>
                    attachSubannotations chainService indexingService nameService abi net tx
                      desiredDecimals block a3)))"

section \<open>Notions used to state the properties\<close>

text \<open>The warning list of an annotation, empty when the key is absent.\<close>

definition warningsOf :: "AnnotationFields \<Rightarrow> Warning list" where
  "warningsOf a = (case warnings a of None \<Rightarrow> [] | Some ws \<Rightarrow> ws)"

text \<open>The sub-annotation list of an annotation, empty when the key is absent.\<close>

definition subannotationsOf :: "TransactionAnnotation \<Rightarrow> TransactionAnnotation list" where
  "subannotationsOf ann = (case subannotations ann of None \<Rightarrow> [] | Some ss \<Rightarrow> ss)"

text \<open>An annotation that carries shared fields only, as the default one does.\<close>

definition sharedOnly :: "AnnotationFields \<Rightarrow> bool" where
  "sharedOnly a \<longleftrightarrow>
     atype a = ContractInteraction \<and> transactionLogoURL a = None \<and> contractName a = None
     \<and> senderAddress a = None \<and> recipientAddress a = None \<and> recipientName a = None
     \<and> assetAmount a = None \<and> spenderAddress a = None \<and> spenderName a = None"

text \<open>
  The fields each variant may and must carry: a contract interaction has an optional
  contract name and logo; a deployment has neither; an asset transfer has sender,
  recipient and amount, an optional recipient name and logo; an asset approval has spender
  and amount, an optional spender name and logo.
\<close>

definition variantFieldsOnly :: "AnnotationFields \<Rightarrow> bool" where
  "variantFieldsOnly a =
     (case atype a of
        ContractInteraction \<Rightarrow>
          senderAddress a = None \<and> recipientAddress a = None \<and> recipientName a = None
          \<and> assetAmount a = None \<and> spenderAddress a = None \<and> spenderName a = None
      | ContractDeployment \<Rightarrow>
          transactionLogoURL a = None \<and> contractName a = None
          \<and> senderAddress a = None \<and> recipientAddress a = None \<and> recipientName a = None
          \<and> assetAmount a = None \<and> spenderAddress a = None \<and> spenderName a = None
      | AssetTransfer \<Rightarrow>
          contractName a = None \<and> spenderAddress a = None \<and> spenderName a = None
          \<and> senderAddress a \<noteq> None \<and> recipientAddress a \<noteq> None \<and> assetAmount a \<noteq> None
      | AssetApproval \<Rightarrow>
          contractName a = None \<and> senderAddress a = None \<and> recipientAddress a = None
          \<and> recipientName a = None \<and> spenderAddress a \<noteq> None \<and> assetAmount a \<noteq> None)"

text \<open>An annotation with the wall-clock timestamp replaced, in the sub-annotations too.\<close>

fun setTimestamp :: "int \<Rightarrow> TransactionAnnotation \<Rightarrow> TransactionAnnotation" where
  "setTimestamp t (Annotation f subs) =
     Annotation (f\<lparr>timestamp := t\<rparr>) (map_option (map (setTimestamp t)) subs)"

text \<open>
  The positions, in increasing order, of the logs that a decoder recognises as a transfer
  of a catalog asset; and the positions of the logs the sub-annotations come from, in the
  order \<^verbatim>\<open>annotationsFromLogs\<close> emits them.
\<close>

definition annotatedLogIndices ::
  "(EVMLog \<Rightarrow> ERC20TransferLog option) \<Rightarrow> AnyAsset list \<Rightarrow> EVMLog list \<Rightarrow> nat list" where
  "annotatedLogIndices decode assets ls =
     filter (\<lambda>i. case decode (ls ! i) of
                   None \<Rightarrow> False
                 | Some t \<Rightarrow> findMatchingFungibleAsset assets (transfer_contractAddress t) \<noteq> None)
       [0..<length ls]"

text \<open>Sender, recipient and raw amount of a sub-annotation and of a transfer record.\<close>

definition annotationTransfer ::
  "TransactionAnnotation \<Rightarrow> HexString option \<times> HexString option \<times> int option" where
  "annotationTransfer s =
     (senderAddress (fields s), recipientAddress (fields s),
      map_option amount (assetAmount (fields s)))"

definition transferOf ::
  "ERC20TransferLog \<Rightarrow> HexString option \<times> HexString option \<times> int option" where
  "transferOf t =
     (Some (transfer_senderAddress t), Some (transfer_recipientAddress t), Some (transfer_amount t))"

text \<open>
  The addresses whose names the primary classification may look up: the recipient, and
  the \<^verbatim>\<open>to\<close> or \<^verbatim>\<open>spender\<close> argument of the decoded call.
\<close>

definition primaryLookupAddresses :: "Decoders \<Rightarrow> Transaction \<Rightarrow> HexString list" where
  "primaryLookupAddresses abi tx =
     (case tx_to tx of
        None \<Rightarrow> []
      | Some to \<Rightarrow>
          to # (case tx_input tx of
                  Defined i \<Rightarrow>
                    (case parseERC20Tx abi i of
                       Some (Transfer t a) \<Rightarrow> [t]
                     | Some (TransferFrom f t a) \<Rightarrow> [t]
                     | Some (Approve s v) \<Rightarrow> [s]
                     | _ \<Rightarrow> [])
                | _ \<Rightarrow> []))"

section \<open>Example inputs\<close>

text \<open>
  A decoder instance for the examples: the selector and topic constants of the ERC-20 and
  wrapped-asset ABIs, 32-byte words in hexadecimal, addresses in the low 20 bytes of a
  word.
\<close>

definition hexDigitValue :: "char \<Rightarrow> int" where
  "hexDigitValue c =
     (case map_of (zip ''0123456789abcdefABCDEF''
                     [0, 1, 2, 3, 4, 5, 6, 7, 8, 9, 10, 11, 12, 13, 14, 15, 10, 11, 12, 13, 14, 15]) c of
        None \<Rightarrow> 0
      | Some d \<Rightarrow> d)"

definition hexToInt :: "string \<Rightarrow> int" where
  "hexToInt s = foldl (\<lambda>acc c. 16 * acc + hexDigitValue c) 0 s"

definition wordAddress :: "string \<Rightarrow> HexString" where
  "wordAddress w = ''0x'' @ drop 24 w"

definition exampleParseERC20Tx :: "HexString \<Rightarrow> ERC20Tx option" where
  "exampleParseERC20Tx i =
     (if length i = 138 \<and> take 10 i = ''0xa9059cbb''
      then Some (Transfer (wordAddress (take 64 (drop 10 i))) (hexToInt (drop 74 i)))
      else if length i = 202 \<and> take 10 i = ''0x23b872dd''
      then Some (TransferFrom (wordAddress (take 64 (drop 10 i)))
                   (wordAddress (take 64 (drop 74 i))) (hexToInt (drop 138 i)))
      else if length i = 138 \<and> take 10 i = ''0x095ea7b3''
      then Some (Approve (wordAddress (take 64 (drop 10 i))) (hexToInt (drop 74 i)))
      else None)"

definition transferTopic :: HexString where
  "transferTopic = ''0xddf252ad1be2c89b69c2b068fc378daa952ba7f163c4a11628f55a4df523b3ef''"

definition depositTopic :: HexString where
  "depositTopic = ''0xe1fffcc4923d04b559f4d29a8bfc6cda04eb5b0d3c460751c2402c5c5cc9109c''"

definition withdrawalTopic :: HexString where
  "withdrawalTopic = ''0x7fcf532c15f0a6db0bd6d0e038bea71d30d808c7d98cb3bf7268a95bf5081b65''"

definition exampleDecodeTransferLog :: "EVMLog \<Rightarrow> ERC20TransferLog option" where
  "exampleDecodeTransferLog l =
     (case log_topics l of
        [sel, src, dst] \<Rightarrow>
          if sel = transferTopic
          then Some \<lparr>transfer_contractAddress = log_contractAddress l,
                     transfer_amount = hexToInt (drop 2 (log_data l)),
                     transfer_senderAddress = wordAddress (drop 2 src),
                     transfer_recipientAddress = wordAddress (drop 2 dst)\<rparr>
          else None
      | _ \<Rightarrow> None)"

definition exampleDecodeWrappedLog :: "EVMLog \<Rightarrow> ERC20TransferLog option" where
  "exampleDecodeWrappedLog l =
     (case log_topics l of
        [sel, who] \<Rightarrow>
          if sel = depositTopic
          then Some \<lparr>transfer_contractAddress = log_contractAddress l,
                     transfer_amount = hexToInt (drop 2 (log_data l)),
                     transfer_senderAddress = log_contractAddress l,
                     transfer_recipientAddress = wordAddress (drop 2 who)\<rparr>
          else if sel = withdrawalTopic
          then Some \<lparr>transfer_contractAddress = log_contractAddress l,
                     transfer_amount = hexToInt (drop 2 (log_data l)),
                     transfer_senderAddress = wordAddress (drop 2 who),
                     transfer_recipientAddress = log_contractAddress l\<rparr>
          else None
      | _ \<Rightarrow> None)"

definition exampleDecoders :: Decoders where
  "exampleDecoders =
     \<lparr>parseERC20Tx = exampleParseERC20Tx,
      decodeERC20TransferLog = exampleDecodeTransferLog,
      decodeWrappedLog = exampleDecodeWrappedLog\<rparr>"

text \<open>A network, a catalog with two tokens, one tracked account and a few addresses.\<close>

definition ether :: FungibleAsset where
  "ether = \<lparr>symbol = ''ETH'', decimals = 18\<rparr>"

definition mainnet :: EVMNetwork where
  "mainnet = \<lparr>network_name = ''Ethereum'', chainID = ''1'', baseAsset = ether\<rparr>"

definition daiAddress :: HexString where
  "daiAddress = ''0x6B175474E89094C44Da98b954EedeAC495271d0F''"

definition wethAddress :: HexString where
  "wethAddress = ''0xC02aaA39b223FE8D0A0e5C4F27eAD9083C756Cc2''"

definition trackedAddress :: HexString where
  "trackedAddress = ''0xd8dA6BF26964aF9D7eEd9e03E53415D37aA96045''"

definition aliceAddress :: HexString where
  "aliceAddress = ''0x1111111111111111111111111111111111111111''"

definition bobAddress :: HexString where
  "bobAddress = ''0x2222222222222222222222222222222222222222''"

definition dai :: SmartContractFungibleAsset where
  "dai = \<lparr>symbol = ''DAI'', decimals = 18, asset_contractAddress = daiAddress,
          metadata = Some \<lparr>logoURL = Some ''dai.svg''\<rparr>\<rparr>"

definition weth :: SmartContractFungibleAsset where
  "weth = \<lparr>symbol = ''WETH'', decimals = 18, asset_contractAddress = wethAddress,
           metadata = None\<rparr>"

definition catalog :: "AnyAsset list" where
  "catalog = [BaseAsset ether, SmartContractAsset dai, SmartContractAsset weth]"

definition exampleIndexing :: IndexingService where
  "exampleIndexing = \<lparr>getCachedAssets = (\<lambda>n. Inr catalog)\<rparr>"

text \<open>A chain service where the sender holds \<open>bal\<close> base units.\<close>

definition exampleChain :: "int \<Rightarrow> ChainService" where
  "exampleChain bal =
     \<lparr>getAccountsToTrack = Inr [\<lparr>address = trackedAddress, network = mainnet\<rparr>],
      getLatestBaseAccountBalance =
        (\<lambda>a. Inr \<lparr>balance_assetAmount = \<lparr>asset = BaseAsset ether, amount = bal\<rparr>\<rparr>),
      getBlockData = (\<lambda>n h. Inr \<lparr>block_hash = h, block_timestamp = 1650000000\<rparr>)\<rparr>"

text \<open>
  Three name services: one that knows the tracked account, one whose every lookup
  rejects, and one that answers for Alice but rejects every other lookup.
\<close>

definition exampleNames :: NameService where
  "exampleNames =
     \<lparr>lookUpName = (\<lambda>a. if sameEVMAddress (address a) trackedAddress
                          then Inr (Some \<lparr>resolved_name = ''vitalik.eth''\<rparr>) else Inr None)\<rparr>"

definition rejectingNames :: NameService where
  "rejectingNames = \<lparr>lookUpName = (\<lambda>a. Inl (Rejected ''timeout''))\<rparr>"

definition flakyNames :: NameService where
  "flakyNames =
     \<lparr>lookUpName = (\<lambda>a. if address a = aliceAddress
                          then Inr (Some \<lparr>resolved_name = ''alice.eth''\<rparr>)
                          else Inl (Rejected ''timeout''))\<rparr>"

text \<open>Logs: a DAI transfer between two given words, a WETH deposit and withdrawal.\<close>

definition word32 :: "string \<Rightarrow> HexString" where
  "word32 a = ''0x000000000000000000000000'' @ drop 2 (normalizeEVMAddress a)"

definition daiTransferLog :: "HexString \<Rightarrow> HexString \<Rightarrow> HexString \<Rightarrow> EVMLog" where
  "daiTransferLog src dst amt =
     \<lparr>log_contractAddress = daiAddress, log_data = amt,
      log_topics = [transferTopic, word32 src, word32 dst]\<rparr>"

definition wethDepositLog :: "HexString \<Rightarrow> HexString \<Rightarrow> EVMLog" where
  "wethDepositLog dst amt =
     \<lparr>log_contractAddress = wethAddress, log_data = amt, log_topics = [depositTopic, word32 dst]\<rparr>"

definition unrelatedLog :: EVMLog where
  "unrelatedLog =
     \<lparr>log_contractAddress = daiAddress, log_data = ''0x'',
      log_topics = [''0x8c5be1e5ebec7d5bd14f71427d1e84f3dd0314c0f7b2291e5b200ac8c7c3b925'']\<rparr>"

text \<open>The call-data of \<^verbatim>\<open>transfer(to, amount)\<close>.\<close>

definition transferCallData :: "HexString \<Rightarrow> string \<Rightarrow> HexString" where
  "transferCallData dst amt64 = ''0xa9059cbb'' @ drop 2 (word32 dst) @ amt64"

definition amount500 :: string where
  "amount500 = ''00000000000000000000000000000000000000000000000000000000000001f4''"

text \<open>A plain value transfer to Alice, a request unless the gas fields are cleared.\<close>

definition sendRequest :: Transaction where
  "sendRequest =
     \<lparr>tx_from = trackedAddress, tx_to = Some aliceAddress, tx_input = Undefined,
      tx_value = Some 1000, gasLimit = Some 21000, maxFeePerGas = Some 2,
      maxPriorityFeePerGas = Some 1, blockHash = None, logs = None\<rparr>"

text \<open>A DAI \<^verbatim>\<open>transfer\<close> call whose recipient argument is \<open>dst\<close>.\<close>

definition daiTransferRequest :: "HexString \<Rightarrow> Transaction" where
  "daiTransferRequest dst =
     \<lparr>tx_from = trackedAddress, tx_to = Some daiAddress,
      tx_input = Defined (transferCallData dst amount500),
      tx_value = None, gasLimit = Some 60000, maxFeePerGas = Some 2,
      maxPriorityFeePerGas = Some 1, blockHash = None, logs = None\<rparr>"

text \<open>
  A DAI \<^verbatim>\<open>transferFrom\<close> call, sent by the tracked account, that moves 500 base units from
  Alice to Bob; it is not a request, so it has no gas fields.
\<close>

definition transferFromCallData :: "HexString \<Rightarrow> HexString \<Rightarrow> string \<Rightarrow> HexString" where
  "transferFromCallData src dst amt64 =
     ''0x23b872dd'' @ drop 2 (word32 src) @ drop 2 (word32 dst) @ amt64"

definition daiTransferFromCall :: Transaction where
  "daiTransferFromCall =
     \<lparr>tx_from = trackedAddress, tx_to = Some daiAddress,
      tx_input = Defined (transferFromCallData aliceAddress bobAddress amount500),
      tx_value = None, gasLimit = None, maxFeePerGas = None, maxPriorityFeePerGas = None,
      blockHash = None, logs = None\<rparr>"

text \<open>
  A mined call to a contract that is not a token, with three logs: a WETH deposit to the
  tracked account, a log of neither shape, and a DAI transfer from Alice to Bob.
\<close>

definition swapLogs :: "EVMLog list" where
  "swapLogs =
     [wethDepositLog trackedAddress ''0x10'', unrelatedLog,
      daiTransferLog aliceAddress bobAddress ''0x20'']"

definition swapTransaction :: Transaction where
  "swapTransaction =
     \<lparr>tx_from = trackedAddress, tx_to = Some aliceAddress, tx_input = Defined ''0x38ed1739'',
      tx_value = Some 0, gasLimit = None, maxFeePerGas = None, maxPriorityFeePerGas = None,
      blockHash = Some ''0xb10c'', logs = Some swapLogs\<rparr>"

text \<open>The same call carrying the gas fields of an EIP-1559 transaction.\<close>

definition pricedSwapTransaction :: Transaction where
  "pricedSwapTransaction =
     swapTransaction\<lparr>gasLimit := Some 200000, maxFeePerGas := Some 2,
       maxPriorityFeePerGas := Some 1\<rparr>"

text \<open>
  Variants of the plain transfer: the value present and zero, the value absent, the gas
  limit zero; and a balance collaborator whose every call rejects.
\<close>

definition zeroValueRequest :: Transaction where
  "zeroValueRequest = sendRequest\<lparr>tx_value := Some 0\<rparr>"

definition noValueRequest :: Transaction where
  "noValueRequest = sendRequest\<lparr>tx_value := None\<rparr>"

definition zeroGasRequest :: Transaction where
  "zeroGasRequest = sendRequest\<lparr>gasLimit := Some 0\<rparr>"

definition rejectingBalance :: "AddressOnNetwork \<Rightarrow> error + AccountBalance" where
  "rejectingBalance a = Inl (Rejected ''unavailable'')"

section \<open>The stages of the entry point\<close>

lemma checkFunds_cases:
  assumes "checkFunds cs net tx a = Inr a'"
  shows "a' = a \<or> a' = pushWarning InsufficientFunds a"
  using assms by (auto simp: checkFunds_def Let_def split: if_splits sum.splits)

lemma fetchBlock_fields:
  assumes "fetchBlock cs net tx a = Inr (b, a')"
  shows "a' = a\<lparr>blockTimestamp := (if b = None then blockTimestamp a else map_option block_timestamp b)\<rparr>"
  using assms by (auto simp: fetchBlock_def split: if_splits sum.splits)

lemma sharedOnly_default: "sharedOnly (defaultAnnotation now)"
  by (simp add: sharedOnly_def defaultAnnotation_def)

lemma sharedOnly_checkFunds:
  "checkFunds cs net tx a = Inr a' \<Longrightarrow> sharedOnly a \<Longrightarrow> sharedOnly a'"
  by (drule checkFunds_cases) (auto simp: sharedOnly_def pushWarning_def)

lemma sharedOnly_fetchBlock:
  "fetchBlock cs net tx a = Inr (b, a') \<Longrightarrow> sharedOnly a \<Longrightarrow> sharedOnly a'"
  by (drule fetchBlock_fields) (auto simp: sharedOnly_def)

lemma resolveE:
  assumes "resolveTransactionAnnotation cs is ns abi net tx dd now = Inr ann"
  obtains a1 b a2 a3 where
    "checkFunds cs net tx (defaultAnnotation now) = Inr a1"
    "fetchBlock cs net tx a1 = Inr (b, a2)"
    "classify is ns abi net tx dd a2 = Inr a3"
    "attachSubannotations cs is ns abi net tx dd b a3 = Inr ann"
  using assms by (auto simp: resolveTransactionAnnotation_def split: sum.splits)

lemma attach_fields:
  "attachSubannotations cs is ns abi net tx dd b a = Inr ann \<Longrightarrow> fields ann = a"
  by (auto simp: attachSubannotations_def split: option.splits sum.splits if_splits)

lemma attach_subannotations:
  assumes "attachSubannotations cs is ns abi net tx dd b a = Inr ann" "logs tx = Some ls"
  shows "annotationsFromLogs cs is ns abi ls net dd (timestamp a) b = Inr (subannotationsOf ann)"
  using assms
  by (auto simp: attachSubannotations_def subannotationsOf_def split: sum.splits if_splits)

lemma attach_no_logs:
  assumes "attachSubannotations cs is ns abi net tx dd b a = Inr ann" "logs tx = None"
  shows "subannotationsOf ann = []"
  using assms by (auto simp: attachSubannotations_def subannotationsOf_def)

lemma findMatching_same:
  "findMatchingFungibleAsset assets c = Some a \<Longrightarrow> sameEVMAddress (asset_contractAddress a) c"
  by (induction assets c rule: findMatchingFungibleAsset.induct) (auto split: if_splits)

lemma classify_noInput:
  assumes "classify is ns abi net tx dd a = Inr a'" "tx_to tx = Some to" "noInput (tx_input tx)"
  shows "\<exists>toName. lookUpNameOf ns net to = Inr toName \<and>
     a' = (case tx_value tx of
        Some v \<Rightarrow> a\<lparr>atype := AssetTransfer, senderAddress := Some (tx_from tx),
                    recipientName := toName, recipientAddress := Some to,
                    assetAmount := Some (enrichAssetAmountWithDecimalValues
                           \<lparr>asset = BaseAsset (baseAsset net), amount = v\<rparr> dd)\<rparr>
      | None \<Rightarrow> a\<lparr>contractName := toName\<rparr>)"
  using assms by (auto simp: classify_def split: sum.splits option.splits)

lemma classify_transfer:
  assumes "classify is ns abi net tx dd a = Inr a'" "tx_to tx = Some to"
    "tx_input tx = Defined i" "i \<noteq> ''0x''"
    "getCachedAssets is net = Inr assets" "findMatchingFungibleAsset assets to = Some m"
    "parseERC20Tx abi i = Some call" "isTransferCall (Some call)"
  shows "\<exists>toName. lookUpNameOf ns net (arg_to call) = Inr toName \<and>
     a' = a\<lparr>atype := AssetTransfer, transactionLogoURL := logoURLOf (Some m),
            senderAddress := Some (senderOfCall call (tx_from tx)),
            recipientAddress := Some (arg_to call), recipientName := toName,
            assetAmount := Some (enrichAssetAmountWithDecimalValues
               \<lparr>asset = SmartContractAsset m, amount = arg_amount call\<rparr> dd),
            warnings := (if sameEVMAddress (arg_to call) to then Some [SendToToken] else warnings a)\<rparr>"
  using assms by (auto simp: classify_def Let_def split: sum.splits)

lemma classify_shared:
  assumes "classify is ns abi net tx dd a = Inr a'"
  shows "timestamp a' = timestamp a \<and> blockTimestamp a' = blockTimestamp a
     \<and> (warnings a' = warnings a \<or> warnings a' = Some [SendToToken])"
  using assms by (auto simp: classify_def Let_def split: sum.splits option.splits if_splits)

lemma classify_variant:
  assumes "classify is ns abi net tx dd a = Inr a'" "sharedOnly a"
  shows "variantFieldsOnly a'"
  using assms
  by (auto simp: classify_def Let_def sharedOnly_def variantFieldsOnly_def
      split: sum.splits option.splits if_splits)

lemma subannotation_props:
  assumes "s \<in> set (subannotationsOfTransfer assets names dd t b tr)"
  shows "variantFieldsOnly (fields s) \<and> subannotations s = None \<and> atype (fields s) = AssetTransfer
     \<and> annotationTransfer s = transferOf tr
     \<and> recipientName (fields s) = names (normalizeEVMAddress (transfer_recipientAddress tr))
     \<and> recipientAddress (fields s) = Some (transfer_recipientAddress tr)"
  using assms
  by (auto simp: subannotationsOfTransfer_def variantFieldsOnly_def annotationTransfer_def
      transferOf_def enrichAssetAmountWithDecimalValues_def split: option.splits)

lemma concat_subannotations:
  "map annotationTransfer (concat (map (subannotationsOfTransfer assets names dd t b) trs)) =
   map transferOf (filter (\<lambda>tr. findMatchingFungibleAsset assets (transfer_contractAddress tr) \<noteq> None) trs)"
  by (induction trs)
    (auto simp: subannotationsOfTransfer_def annotationTransfer_def transferOf_def
      enrichAssetAmountWithDecimalValues_def split: option.splits)

lemma annotationsFromLogs_transfers:
  assumes "annotationsFromLogs cs is ns abi ls net dd t b = Inr subs"
    "getCachedAssets is net = Inr assets"
  shows "map annotationTransfer subs =
    map transferOf (filter (\<lambda>tr. findMatchingFungibleAsset assets (transfer_contractAddress tr) \<noteq> None)
      (tokenTransferLogs abi ls))"
  using assms
  by (auto simp: annotationsFromLogs_def Let_def concat_subannotations split: sum.splits)

lemma annotationsFromLogs_each:
  assumes "annotationsFromLogs cs is ns abi ls net dd t b = Inr subs" "s \<in> set subs"
  shows "variantFieldsOnly (fields s) \<and> subannotations s = None \<and> atype (fields s) = AssetTransfer"
  using assms
  by (auto simp: annotationsFromLogs_def Let_def split: sum.splits dest: subannotation_props)

lemma map_filter_indices:
  "filter P (List.map_filter dec ls) =
   map (\<lambda>i. the (dec (ls ! i)))
     (filter (\<lambda>i. case dec (ls ! i) of None \<Rightarrow> False | Some t \<Rightarrow> P t) [0..<length ls])"
proof -
  have "filter P (List.map_filter dec ls) =
        map (the \<circ> dec) (filter (\<lambda>x. case dec x of None \<Rightarrow> False | Some t \<Rightarrow> P t) ls)"
    by (induction ls) (auto simp: List.map_filter_def)
  also have "\<dots> = map (the \<circ> dec)
       (filter (\<lambda>x. case dec x of None \<Rightarrow> False | Some t \<Rightarrow> P t) (map ((!) ls) [0..<length ls]))"
    by (simp only: map_nth)
  also have "\<dots> = map (\<lambda>i. the (dec (ls ! i)))
     (filter (\<lambda>i. case dec (ls ! i) of None \<Rightarrow> False | Some t \<Rightarrow> P t) [0..<length ls])"
    by (simp add: filter_map comp_def)
  finally show ?thesis .
qed

section \<open>The examples, evaluated\<close>

lemmas address_defs = daiAddress_def wethAddress_def trackedAddress_def aliceAddress_def
  bobAddress_def

lemma toLowerCase_hex:
  "toLowerCase_char CHR ''0'' = CHR ''0''"
  "toLowerCase_char CHR ''1'' = CHR ''1''"
  "toLowerCase_char CHR ''2'' = CHR ''2''"
  "toLowerCase_char CHR ''3'' = CHR ''3''"
  "toLowerCase_char CHR ''4'' = CHR ''4''"
  "toLowerCase_char CHR ''5'' = CHR ''5''"
  "toLowerCase_char CHR ''6'' = CHR ''6''"
  "toLowerCase_char CHR ''7'' = CHR ''7''"
  "toLowerCase_char CHR ''8'' = CHR ''8''"
  "toLowerCase_char CHR ''9'' = CHR ''9''"
  "toLowerCase_char CHR ''a'' = CHR ''a''"
  "toLowerCase_char CHR ''b'' = CHR ''b''"
  "toLowerCase_char CHR ''c'' = CHR ''c''"
  "toLowerCase_char CHR ''d'' = CHR ''d''"
  "toLowerCase_char CHR ''e'' = CHR ''e''"
  "toLowerCase_char CHR ''f'' = CHR ''f''"
  "toLowerCase_char CHR ''x'' = CHR ''x''"
  "toLowerCase_char CHR ''A'' = CHR ''a''"
  "toLowerCase_char CHR ''B'' = CHR ''b''"
  "toLowerCase_char CHR ''C'' = CHR ''c''"
  "toLowerCase_char CHR ''D'' = CHR ''d''"
  "toLowerCase_char CHR ''E'' = CHR ''e''"
  "toLowerCase_char CHR ''F'' = CHR ''f''"
  by (simp_all add: toLowerCase_char_def)

lemma normalize_examples:
  "normalizeEVMAddress ''0x6B175474E89094C44Da98b954EedeAC495271d0F'' = ''0x6b175474e89094c44da98b954eedeac495271d0f''"
  "normalizeEVMAddress ''0x6b175474e89094c44da98b954eedeac495271d0f'' = ''0x6b175474e89094c44da98b954eedeac495271d0f''"
  "normalizeEVMAddress ''0xC02aaA39b223FE8D0A0e5C4F27eAD9083C756Cc2'' = ''0xc02aaa39b223fe8d0a0e5c4f27ead9083c756cc2''"
  "normalizeEVMAddress ''0xd8dA6BF26964aF9D7eEd9e03E53415D37aA96045'' = ''0xd8da6bf26964af9d7eed9e03e53415d37aa96045''"
  "normalizeEVMAddress ''0xd8da6bf26964af9d7eed9e03e53415d37aa96045'' = ''0xd8da6bf26964af9d7eed9e03e53415d37aa96045''"
  "normalizeEVMAddress ''0x1111111111111111111111111111111111111111'' = ''0x1111111111111111111111111111111111111111''"
  "normalizeEVMAddress ''0x2222222222222222222222222222222222222222'' = ''0x2222222222222222222222222222222222222222''"
  by (simp_all add: normalizeEVMAddress_def toLowerCase_hex)

lemma normalize_constants:
  "normalizeEVMAddress daiAddress = ''0x6b175474e89094c44da98b954eedeac495271d0f''"
  "normalizeEVMAddress wethAddress = ''0xc02aaa39b223fe8d0a0e5c4f27ead9083c756cc2''"
  "normalizeEVMAddress trackedAddress = ''0xd8da6bf26964af9d7eed9e03e53415d37aa96045''"
  "normalizeEVMAddress aliceAddress = ''0x1111111111111111111111111111111111111111''"
  "normalizeEVMAddress bobAddress = ''0x2222222222222222222222222222222222222222''"
  by (simp_all add: address_defs normalize_examples)

lemma hexToInt_examples:
  "hexToInt ''00000000000000000000000000000000000000000000000000000000000001f4'' = 500"
  "hexToInt ''10'' = 16" "hexToInt ''20'' = 32"
  by (simp_all add: hexToInt_def hexDigitValue_def)

lemma exampleChain_simps:
  "getAccountsToTrack (exampleChain bal) = Inr [\<lparr>address = trackedAddress, network = mainnet\<rparr>]"
  "getLatestBaseAccountBalance (exampleChain bal) a =
     Inr \<lparr>balance_assetAmount = \<lparr>asset = BaseAsset ether, amount = bal\<rparr>\<rparr>"
  "getBlockData (exampleChain bal) n h = Inr \<lparr>block_hash = h, block_timestamp = 1650000000\<rparr>"
  by (simp_all add: exampleChain_def)

lemma exampleIndexing_simps: "getCachedAssets exampleIndexing n = Inr catalog"
  by (simp add: exampleIndexing_def)

lemma word32_examples:
  "wordAddress (drop 2 (word32 aliceAddress)) = aliceAddress"
  "wordAddress (drop 2 (word32 bobAddress)) = bobAddress"
  "wordAddress (drop 2 (word32 trackedAddress)) = ''0xd8da6bf26964af9d7eed9e03e53415d37aa96045''"
  by (simp_all add: word32_def wordAddress_def normalize_constants)
    (simp_all add: address_defs)

lemma topics_distinct:
  "transferTopic \<noteq> depositTopic" "transferTopic \<noteq> withdrawalTopic"
  "depositTopic \<noteq> transferTopic" "depositTopic \<noteq> withdrawalTopic"
  by (simp_all add: transferTopic_def depositTopic_def withdrawalTopic_def)

lemma decode_examples:
  "exampleDecodeTransferLog (daiTransferLog src dst amt) =
     Some \<lparr>transfer_contractAddress = daiAddress, transfer_amount = hexToInt (drop 2 amt),
           transfer_senderAddress = wordAddress (drop 2 (word32 src)),
           transfer_recipientAddress = wordAddress (drop 2 (word32 dst))\<rparr>"
  "exampleDecodeWrappedLog (daiTransferLog src dst amt) = None"
  "exampleDecodeTransferLog (wethDepositLog dst amt) = None"
  "exampleDecodeWrappedLog (wethDepositLog dst amt) =
     Some \<lparr>transfer_contractAddress = wethAddress, transfer_amount = hexToInt (drop 2 amt),
           transfer_senderAddress = wethAddress,
           transfer_recipientAddress = wordAddress (drop 2 (word32 dst))\<rparr>"
  "exampleDecodeTransferLog unrelatedLog = None"
  "exampleDecodeWrappedLog unrelatedLog = None"
  by (simp_all add: exampleDecodeTransferLog_def exampleDecodeWrappedLog_def daiTransferLog_def
      wethDepositLog_def unrelatedLog_def topics_distinct)

lemma swapLogs_transfers:
  "tokenTransferLogs exampleDecoders swapLogs =
     [\<lparr>transfer_contractAddress = daiAddress, transfer_amount = 32,
       transfer_senderAddress = aliceAddress, transfer_recipientAddress = bobAddress\<rparr>,
      \<lparr>transfer_contractAddress = wethAddress, transfer_amount = 16,
       transfer_senderAddress = wethAddress,
       transfer_recipientAddress = ''0xd8da6bf26964af9d7eed9e03e53415d37aa96045''\<rparr>]"
  by (simp add: tokenTransferLogs_def parseLogsForERC20Transfers_def
      parseLogsForWrappedDepositsAndWithdrawals_def List.map_filter_def exampleDecoders_def
      swapLogs_def decode_examples word32_examples hexToInt_examples)

lemma catalog_examples:
  "findMatchingFungibleAsset catalog daiAddress = Some dai"
  "findMatchingFungibleAsset catalog wethAddress = Some weth"
  "findMatchingFungibleAsset catalog aliceAddress = None"
  by (simp_all add: catalog_def dai_def weth_def sameEVMAddress_def address_defs
      normalize_examples)

lemma parse_examples:
  "exampleParseERC20Tx (transferCallData daiAddress amount500) =
     Some (Transfer ''0x6b175474e89094c44da98b954eedeac495271d0f'' 500)"
  "exampleParseERC20Tx (transferCallData bobAddress amount500) = Some (Transfer bobAddress 500)"
  "exampleParseERC20Tx ''0x38ed1739'' = None"
  "exampleParseERC20Tx (transferFromCallData aliceAddress bobAddress amount500) =
     Some (TransferFrom aliceAddress bobAddress 500)"
  by (simp_all add: exampleParseERC20Tx_def transferCallData_def transferFromCallData_def
      word32_def wordAddress_def amount500_def address_defs normalize_examples
      hexToInt_examples)

lemma swapLogs_relevant:
  "getERC20LogsForAddresses (tokenTransferLogs exampleDecoders swapLogs) [trackedAddress] =
     [\<lparr>transfer_contractAddress = wethAddress, transfer_amount = 16,
       transfer_senderAddress = wethAddress,
       transfer_recipientAddress = ''0xd8da6bf26964af9d7eed9e03e53415d37aa96045''\<rparr>]"
  by (simp add: swapLogs_transfers getERC20LogsForAddresses_def normalize_constants
      normalize_examples)

lemma exampleNames_tracked:
  "namesByAddress exampleNames mainnet [''0xd8da6bf26964af9d7eed9e03e53415d37aa96045''] =
     [''0xd8da6bf26964af9d7eed9e03e53415d37aa96045'' \<mapsto> ''vitalik.eth'']"
  by (simp add: namesByAddress_def lookUpNameEntry_def List.map_filter_def exampleNames_def
      sameEVMAddress_def normalize_constants normalize_examples)

lemma swapLogs_subannotations:
  "annotationsFromLogs (exampleChain bal) exampleIndexing exampleNames exampleDecoders swapLogs
     mainnet 2 1000 blk =
   Inr [Annotation
          \<lparr>atype = AssetTransfer, timestamp = 1000,
           blockTimestamp = map_option block_timestamp blk,
           warnings = None, transactionLogoURL = None, contractName = None,
           senderAddress = Some aliceAddress, recipientAddress = Some bobAddress,
           recipientName = None,
           assetAmount = Some (enrichAssetAmountWithDecimalValues
             \<lparr>asset = SmartContractAsset dai, amount = 32\<rparr> 2),
           spenderAddress = None, spenderName = None\<rparr> None,
        Annotation
          \<lparr>atype = AssetTransfer, timestamp = 1000,
           blockTimestamp = map_option block_timestamp blk,
           warnings = None, transactionLogoURL = None, contractName = None,
           senderAddress = Some wethAddress,
           recipientAddress = Some ''0xd8da6bf26964af9d7eed9e03e53415d37aa96045'',
           recipientName = Some ''vitalik.eth'',
           assetAmount = Some (enrichAssetAmountWithDecimalValues
             \<lparr>asset = SmartContractAsset weth, amount = 16\<rparr> 2),
           spenderAddress = None, spenderName = None\<rparr> None]"
proof -
  note a = exampleIndexing_simps exampleChain_simps(1)
  have d: "getDistinctRecipentAddressesFromERC20Logs
      (getERC20LogsForAddresses (tokenTransferLogs exampleDecoders swapLogs) [trackedAddress]) =
      [''0xd8da6bf26964af9d7eed9e03e53415d37aa96045'']"
    by (simp add: swapLogs_relevant getDistinctRecipentAddressesFromERC20Logs_def)
  show ?thesis
    unfolding annotationsFromLogs_def a sum.case Let_def list.map AddressOnNetwork.simps d
      exampleNames_tracked
    by (simp add: swapLogs_transfers subannotationsOfTransfer_def catalog_examples
        normalize_constants normalize_examples)
qed

lemma sendRequest_result:
  "resolveTransactionAnnotation (exampleChain 5000) exampleIndexing exampleNames exampleDecoders
     mainnet sendRequest 2 1000 =
   Inr (Annotation
     \<lparr>atype = AssetTransfer, timestamp = 1000, blockTimestamp = None,
      warnings = Some [InsufficientFunds], transactionLogoURL = None, contractName = None,
      senderAddress = Some trackedAddress, recipientAddress = Some aliceAddress,
      recipientName = None,
      assetAmount = Some (enrichAssetAmountWithDecimalValues
        \<lparr>asset = BaseAsset ether, amount = 1000\<rparr> 2),
      spenderAddress = None, spenderName = None\<rparr> None)"
  by (simp add: resolveTransactionAnnotation_def checkFunds_def fetchBlock_def classify_def
      attachSubannotations_def lookUpNameOf_def defaultAnnotation_def pushWarning_def
      truthy_bigint_def truthy_string_def sendRequest_def exampleChain_simps exampleNames_def
      mainnet_def sameEVMAddress_def normalize_constants normalize_examples)

lemma sendRequest_rejected:
  "resolveTransactionAnnotation (exampleChain 5000) exampleIndexing rejectingNames exampleDecoders
     mainnet sendRequest 2 1000 = Inl (Rejected ''timeout'')"
  by (simp add: resolveTransactionAnnotation_def checkFunds_def fetchBlock_def classify_def
      lookUpNameOf_def defaultAnnotation_def pushWarning_def
      truthy_bigint_def truthy_string_def sendRequest_def exampleChain_simps rejectingNames_def)

lemma daiTransferToToken_result:
  "resolveTransactionAnnotation (exampleChain 5000) exampleIndexing exampleNames exampleDecoders
     mainnet (daiTransferRequest daiAddress) 2 1000 =
   Inr (Annotation
     \<lparr>atype = AssetTransfer, timestamp = 1000, blockTimestamp = None,
      warnings = Some [SendToToken], transactionLogoURL = Some ''dai.svg'', contractName = None,
      senderAddress = Some trackedAddress,
      recipientAddress = Some ''0x6b175474e89094c44da98b954eedeac495271d0f'',
      recipientName = None,
      assetAmount = Some (enrichAssetAmountWithDecimalValues
        \<lparr>asset = SmartContractAsset dai, amount = 500\<rparr> 2),
      spenderAddress = None, spenderName = None\<rparr> None)"
proof -
  have i: "transferCallData daiAddress amount500 \<noteq> ''0x''"
    by (simp add: transferCallData_def)
  show ?thesis
    by (simp add: resolveTransactionAnnotation_def checkFunds_def fetchBlock_def classify_def
      attachSubannotations_def lookUpNameOf_def defaultAnnotation_def pushWarning_def
      truthy_bigint_def truthy_string_def daiTransferRequest_def exampleChain_simps
      exampleNames_def exampleIndexing_simps exampleDecoders_def i parse_examples
      catalog_examples logoURLOf_def dai_def
      sameEVMAddress_def normalize_constants normalize_examples)
qed

lemma daiTransferToBob_result:
  "resolveTransactionAnnotation (exampleChain 5000) exampleIndexing exampleNames exampleDecoders
     mainnet (daiTransferRequest bobAddress) 2 1000 =
   Inr (Annotation
     \<lparr>atype = AssetTransfer, timestamp = 1000, blockTimestamp = None,
      warnings = Some [InsufficientFunds], transactionLogoURL = Some ''dai.svg'',
      contractName = None, senderAddress = Some trackedAddress,
      recipientAddress = Some bobAddress, recipientName = None,
      assetAmount = Some (enrichAssetAmountWithDecimalValues
        \<lparr>asset = SmartContractAsset dai, amount = 500\<rparr> 2),
      spenderAddress = None, spenderName = None\<rparr> None)"
proof -
  have i: "transferCallData bobAddress amount500 \<noteq> ''0x''"
    by (simp add: transferCallData_def)
  show ?thesis
    by (simp add: resolveTransactionAnnotation_def checkFunds_def fetchBlock_def classify_def
      attachSubannotations_def lookUpNameOf_def defaultAnnotation_def pushWarning_def
      truthy_bigint_def truthy_string_def daiTransferRequest_def exampleChain_simps
      exampleNames_def exampleIndexing_simps exampleDecoders_def i parse_examples
      catalog_examples logoURLOf_def dai_def
      sameEVMAddress_def normalize_constants normalize_examples)
qed

lemma daiTransferFromCall_result:
  "resolveTransactionAnnotation (exampleChain 5000) exampleIndexing exampleNames exampleDecoders
     mainnet daiTransferFromCall 2 1000 =
   Inr (Annotation
     \<lparr>atype = AssetTransfer, timestamp = 1000, blockTimestamp = None,
      warnings = None, transactionLogoURL = Some ''dai.svg'',
      contractName = None, senderAddress = Some aliceAddress,
      recipientAddress = Some bobAddress, recipientName = None,
      assetAmount = Some (enrichAssetAmountWithDecimalValues
        \<lparr>asset = SmartContractAsset dai, amount = 500\<rparr> 2),
      spenderAddress = None, spenderName = None\<rparr> None)"
proof -
  have i: "transferFromCallData aliceAddress bobAddress amount500 \<noteq> ''0x''"
    by (simp add: transferFromCallData_def)
  show ?thesis
    by (simp add: resolveTransactionAnnotation_def checkFunds_def fetchBlock_def classify_def
      attachSubannotations_def lookUpNameOf_def defaultAnnotation_def pushWarning_def
      truthy_bigint_def truthy_string_def daiTransferFromCall_def exampleChain_simps
      exampleNames_def exampleIndexing_simps exampleDecoders_def i parse_examples
      catalog_examples logoURLOf_def dai_def
      sameEVMAddress_def normalize_constants normalize_examples)
qed

lemma swapTransaction_result:
  "resolveTransactionAnnotation (exampleChain 5000) exampleIndexing exampleNames exampleDecoders
     mainnet swapTransaction 2 1000 =
   Inr (Annotation
     \<lparr>atype = ContractInteraction, timestamp = 1000, blockTimestamp = Some 1650000000,
      warnings = None, transactionLogoURL = None, contractName = None,
      senderAddress = None, recipientAddress = None, recipientName = None,
      assetAmount = None, spenderAddress = None, spenderName = None\<rparr>
     (Some
       [Annotation
          \<lparr>atype = AssetTransfer, timestamp = 1000, blockTimestamp = Some 1650000000,
           warnings = None, transactionLogoURL = None, contractName = None,
           senderAddress = Some aliceAddress, recipientAddress = Some bobAddress,
           recipientName = None,
           assetAmount = Some (enrichAssetAmountWithDecimalValues
             \<lparr>asset = SmartContractAsset dai, amount = 32\<rparr> 2),
           spenderAddress = None, spenderName = None\<rparr> None,
        Annotation
          \<lparr>atype = AssetTransfer, timestamp = 1000, blockTimestamp = Some 1650000000,
           warnings = None, transactionLogoURL = None, contractName = None,
           senderAddress = Some wethAddress,
           recipientAddress = Some ''0xd8da6bf26964af9d7eed9e03e53415d37aa96045'',
           recipientName = Some ''vitalik.eth'',
           assetAmount = Some (enrichAssetAmountWithDecimalValues
             \<lparr>asset = SmartContractAsset weth, amount = 16\<rparr> 2),
           spenderAddress = None, spenderName = None\<rparr> None]))"
proof -
  have c: "classify exampleIndexing exampleNames exampleDecoders mainnet swapTransaction 2 a =
      Inr (a\<lparr>atype := ContractInteraction, transactionLogoURL := None, contractName := None\<rparr>)"
    for a
    by (simp add: classify_def swapTransaction_def exampleIndexing_simps exampleDecoders_def
        parse_examples catalog_examples logoURLOf_def lookUpNameOf_def exampleNames_def
        sameEVMAddress_def normalize_constants normalize_examples)
  have f: "logs swapTransaction = Some swapLogs" "blockHash swapTransaction = Some ''0xb10c''"
    "gasLimit swapTransaction = None"
    by (simp_all add: swapTransaction_def)
  show ?thesis
    by (simp add: resolveTransactionAnnotation_def checkFunds_def fetchBlock_def c f
      attachSubannotations_def swapLogs_subannotations defaultAnnotation_def
      truthy_bigint_def truthy_string_def exampleChain_simps)
qed

lemma Inr_projr: "r = Inr a \<Longrightarrow> r = Inr (projr r)"
  by simp

lemma plainRequest_results:
  "resolveTransactionAnnotation (exampleChain 5000) exampleIndexing exampleNames exampleDecoders
     mainnet zeroValueRequest 2 1000 =
   Inr (Annotation
     \<lparr>atype = AssetTransfer, timestamp = 1000, blockTimestamp = None,
      warnings = Some [InsufficientFunds], transactionLogoURL = None, contractName = None,
      senderAddress = Some trackedAddress, recipientAddress = Some aliceAddress,
      recipientName = None,
      assetAmount = Some (enrichAssetAmountWithDecimalValues
        \<lparr>asset = BaseAsset ether, amount = 0\<rparr> 2),
      spenderAddress = None, spenderName = None\<rparr> None)"
  "resolveTransactionAnnotation (exampleChain 5000) exampleIndexing exampleNames exampleDecoders
     mainnet noValueRequest 2 1000 =
   Inr (Annotation
     \<lparr>atype = ContractInteraction, timestamp = 1000, blockTimestamp = None,
      warnings = Some [InsufficientFunds], transactionLogoURL = None, contractName = None,
      senderAddress = None, recipientAddress = None, recipientName = None,
      assetAmount = None, spenderAddress = None, spenderName = None\<rparr> None)"
  "resolveTransactionAnnotation (exampleChain 0) exampleIndexing exampleNames exampleDecoders
     mainnet zeroGasRequest 2 1000 =
   Inr (Annotation
     \<lparr>atype = AssetTransfer, timestamp = 1000, blockTimestamp = None,
      warnings = None, transactionLogoURL = None, contractName = None,
      senderAddress = Some trackedAddress, recipientAddress = Some aliceAddress,
      recipientName = None,
      assetAmount = Some (enrichAssetAmountWithDecimalValues
        \<lparr>asset = BaseAsset ether, amount = 1000\<rparr> 2),
      spenderAddress = None, spenderName = None\<rparr> None)"
  by (simp_all add: resolveTransactionAnnotation_def checkFunds_def fetchBlock_def classify_def
      attachSubannotations_def lookUpNameOf_def defaultAnnotation_def pushWarning_def
      truthy_bigint_def truthy_string_def sendRequest_def zeroValueRequest_def
      noValueRequest_def zeroGasRequest_def exampleChain_simps exampleNames_def
      mainnet_def sameEVMAddress_def normalize_constants normalize_examples)

lemma namedRequest_results:
  "resolveTransactionAnnotation (exampleChain 5000) exampleIndexing flakyNames exampleDecoders
     mainnet zeroValueRequest 2 1000 =
   Inr (Annotation
     \<lparr>atype = AssetTransfer, timestamp = 1000, blockTimestamp = None,
      warnings = Some [InsufficientFunds], transactionLogoURL = None, contractName = None,
      senderAddress = Some trackedAddress, recipientAddress = Some aliceAddress,
      recipientName = Some ''alice.eth'',
      assetAmount = Some (enrichAssetAmountWithDecimalValues
        \<lparr>asset = BaseAsset ether, amount = 0\<rparr> 2),
      spenderAddress = None, spenderName = None\<rparr> None)"
  "resolveTransactionAnnotation (exampleChain 5000) exampleIndexing flakyNames exampleDecoders
     mainnet noValueRequest 2 1000 =
   Inr (Annotation
     \<lparr>atype = ContractInteraction, timestamp = 1000, blockTimestamp = None,
      warnings = Some [InsufficientFunds], transactionLogoURL = None,
      contractName = Some ''alice.eth'',
      senderAddress = None, recipientAddress = None, recipientName = None,
      assetAmount = None, spenderAddress = None, spenderName = None\<rparr> None)"
  by (simp_all add: resolveTransactionAnnotation_def checkFunds_def fetchBlock_def classify_def
      attachSubannotations_def lookUpNameOf_def defaultAnnotation_def pushWarning_def
      truthy_bigint_def truthy_string_def sendRequest_def zeroValueRequest_def
      noValueRequest_def exampleChain_simps flakyNames_def mainnet_def)

section \<open>Classification of the primary transaction\<close>

lemma warningsOf_stage:
  assumes "checkFunds cs net tx (defaultAnnotation now) = Inr a1"
    "fetchBlock cs net tx a1 = Inr (b, a2)"
  shows "sharedOnly a2 \<and> timestamp a2 = now \<and> warnings a2 = warnings a1
    \<and> (warnings a1 = None \<or> warnings a1 = Some [InsufficientFunds])"
proof -
  have "sharedOnly a2"
    using assms sharedOnly_default sharedOnly_checkFunds sharedOnly_fetchBlock by blast
  moreover have "a1 = defaultAnnotation now \<or> a1 = pushWarning InsufficientFunds (defaultAnnotation now)"
    using assms(1) by (rule checkFunds_cases)
  moreover have "a2 = a1\<lparr>blockTimestamp := (if b = None then blockTimestamp a1 else map_option block_timestamp b)\<rparr>"
    using assms(2) by (rule fetchBlock_fields)
  ultimately show ?thesis
    by (auto simp: defaultAnnotation_def pushWarning_def)
qed

text \<open>
  Claim C6. A transaction with a recipient and with call-data absent, \<^verbatim>\<open>null\<close> or
  \<^verbatim>\<open>"0x"\<close>: when the value is present, zero included, the annotation is an asset transfer
  of the network's base asset from the sender to the recipient, whose recipient name is
  the name in the name service's reply for the recipient, and it has no contract name;
  when the value is absent it is a contract interaction whose contract name is the name in
  that reply, without an asset amount or a recipient name. The name is absent exactly
  when the reply holds no record.
\<close>

theorem no_calldata_value_tristate:
  assumes "resolveTransactionAnnotation cs is ns abi net tx dd now = Inr ann"
    and "tx_to tx = Some to"
    and "tx_input tx = Undefined \<or> tx_input tx = Null \<or> tx_input tx = Defined ''0x''"
  shows "\<exists>reply. lookUpName ns \<lparr>address = to, network = net\<rparr> = Inr reply \<and>
     (\<forall>v. tx_value tx = Some v \<longrightarrow>
        atype (fields ann) = AssetTransfer
        \<and> assetAmount (fields ann) = Some (enrichAssetAmountWithDecimalValues
              \<lparr>asset = BaseAsset (baseAsset net), amount = v\<rparr> dd)
        \<and> senderAddress (fields ann) = Some (tx_from tx)
        \<and> recipientAddress (fields ann) = Some to
        \<and> recipientName (fields ann) = map_option resolved_name reply
        \<and> contractName (fields ann) = None) \<and>
     (tx_value tx = None \<longrightarrow>
        atype (fields ann) = ContractInteraction
        \<and> contractName (fields ann) = map_option resolved_name reply
        \<and> assetAmount (fields ann) = None
        \<and> recipientName (fields ann) = None)"
proof -
  from assms(1) obtain a1 b a2 a3 where st:
    "checkFunds cs net tx (defaultAnnotation now) = Inr a1"
    "fetchBlock cs net tx a1 = Inr (b, a2)"
    "classify is ns abi net tx dd a2 = Inr a3"
    "attachSubannotations cs is ns abi net tx dd b a3 = Inr ann"
    by (rule resolveE)
  have sh: "sharedOnly a2" using warningsOf_stage [OF st(1,2)] by simp
  have ni: "noInput (tx_input tx)" using assms(3) by auto
  from classify_noInput [OF st(3) assms(2) ni] obtain toName where
    n: "lookUpNameOf ns net to = Inr toName" and
    a3: "a3 = (case tx_value tx of
        Some v \<Rightarrow> a2\<lparr>atype := AssetTransfer, senderAddress := Some (tx_from tx),
                    recipientName := toName, recipientAddress := Some to,
                    assetAmount := Some (enrichAssetAmountWithDecimalValues
                           \<lparr>asset = BaseAsset (baseAsset net), amount = v\<rparr> dd)\<rparr>
      | None \<Rightarrow> a2\<lparr>contractName := toName\<rparr>)"
    by blast
  from n obtain reply where
    r: "lookUpName ns \<lparr>address = to, network = net\<rparr> = Inr reply" and
    t: "toName = map_option resolved_name reply"
    by (auto simp: lookUpNameOf_def split: sum.splits)
  have f: "fields ann = a3" using st(4) by (rule attach_fields)
  show ?thesis
    using r t a3 f sh by (auto simp: sharedOnly_def split: option.splits)
qed

text \<open>
  The plain transfer to Alice, whose name the name service resolves: with the value present
  and zero it is an asset transfer of ether to alice.eth; with the value absent it is a
  contract interaction with alice.eth, without an amount. With a name service that has no
  record for Alice the contract name is absent.
\<close>

theorem no_calldata_value_tristate_witness:
  "lookUpName flakyNames \<lparr>address = aliceAddress, network = mainnet\<rparr>
     = Inr (Some \<lparr>resolved_name = ''alice.eth''\<rparr>)
   \<and> atype (fields (projr (resolveTransactionAnnotation (exampleChain 5000) exampleIndexing
      flakyNames exampleDecoders mainnet zeroValueRequest 2 1000))) = AssetTransfer
   \<and> map_option asset (assetAmount (fields (projr (resolveTransactionAnnotation
      (exampleChain 5000) exampleIndexing flakyNames exampleDecoders mainnet zeroValueRequest
      2 1000)))) = Some (BaseAsset ether)
   \<and> recipientName (fields (projr (resolveTransactionAnnotation (exampleChain 5000)
      exampleIndexing flakyNames exampleDecoders mainnet zeroValueRequest 2 1000)))
     = Some ''alice.eth''
   \<and> atype (fields (projr (resolveTransactionAnnotation (exampleChain 5000) exampleIndexing
      flakyNames exampleDecoders mainnet noValueRequest 2 1000))) = ContractInteraction
   \<and> contractName (fields (projr (resolveTransactionAnnotation (exampleChain 5000)
      exampleIndexing flakyNames exampleDecoders mainnet noValueRequest 2 1000)))
     = Some ''alice.eth''
   \<and> assetAmount (fields (projr (resolveTransactionAnnotation (exampleChain 5000)
      exampleIndexing flakyNames exampleDecoders mainnet noValueRequest 2 1000))) = None
   \<and> contractName (fields (projr (resolveTransactionAnnotation (exampleChain 5000)
      exampleIndexing exampleNames exampleDecoders mainnet noValueRequest 2 1000))) = None"
proof -
  let ?z = "resolveTransactionAnnotation (exampleChain 5000) exampleIndexing flakyNames
      exampleDecoders mainnet zeroValueRequest 2 1000"
  let ?n = "resolveTransactionAnnotation (exampleChain 5000) exampleIndexing flakyNames
      exampleDecoders mainnet noValueRequest 2 1000"
  let ?u = "resolveTransactionAnnotation (exampleChain 5000) exampleIndexing exampleNames
      exampleDecoders mainnet noValueRequest 2 1000"
  have rz: "?z = Inr (projr ?z)" by (rule Inr_projr) (rule namedRequest_results(1))
  have rn: "?n = Inr (projr ?n)" by (rule Inr_projr) (rule namedRequest_results(2))
  have ru: "?u = Inr (projr ?u)" by (rule Inr_projr) (rule plainRequest_results(2))
  have tz: "tx_to zeroValueRequest = Some aliceAddress"
    and iz: "tx_input zeroValueRequest = Undefined \<or> tx_input zeroValueRequest = Null
             \<or> tx_input zeroValueRequest = Defined ''0x''"
    and vz: "tx_value zeroValueRequest = Some 0"
    by (simp_all add: zeroValueRequest_def sendRequest_def)
  have tn: "tx_to noValueRequest = Some aliceAddress"
    and inn: "tx_input noValueRequest = Undefined \<or> tx_input noValueRequest = Null
             \<or> tx_input noValueRequest = Defined ''0x''"
    and vn: "tx_value noValueRequest = None"
    by (simp_all add: noValueRequest_def sendRequest_def)
  have l: "lookUpName flakyNames \<lparr>address = aliceAddress, network = mainnet\<rparr>
     = Inr (Some \<lparr>resolved_name = ''alice.eth''\<rparr>)"
    by (simp add: flakyNames_def)
  have e: "lookUpName exampleNames \<lparr>address = aliceAddress, network = mainnet\<rparr> = Inr None"
    by (simp add: exampleNames_def sameEVMAddress_def normalize_constants)
  from no_calldata_value_tristate [OF rz tz iz] vz l
  have z: "atype (fields (projr ?z)) = AssetTransfer
      \<and> map_option asset (assetAmount (fields (projr ?z))) = Some (BaseAsset ether)
      \<and> recipientName (fields (projr ?z)) = Some ''alice.eth''"
    by (auto simp: enrichAssetAmountWithDecimalValues_def mainnet_def)
  from no_calldata_value_tristate [OF rn tn inn] vn l
  have n: "atype (fields (projr ?n)) = ContractInteraction
      \<and> contractName (fields (projr ?n)) = Some ''alice.eth''
      \<and> assetAmount (fields (projr ?n)) = None"
    by auto
  from no_calldata_value_tristate [OF ru tn inn] vn e
  have u: "contractName (fields (projr ?u)) = None"
    by auto
  from l z n u show ?thesis by (simp only: simp_thms)
qed

text \<open>
  Claim C5. A transaction whose recipient matches a catalog asset and whose call-data
  decodes as \<^verbatim>\<open>transfer\<close> or \<^verbatim>\<open>transferFrom\<close> is annotated as an asset transfer: the
  recipient is the decoded \<^verbatim>\<open>to\<close>, the sender is the decoded \<^verbatim>\<open>from\<close> when there is one
  and the transaction's sender otherwise, and the asset amount pairs the matched asset
  with the decoded amount, its decimal amount being that amount divided by ten to the
  asset's decimals.
\<close>

theorem erc20_transfer_annotation:
  assumes "resolveTransactionAnnotation cs is ns abi net tx dd now = Inr ann"
    and "tx_to tx = Some to"
    and "tx_input tx = Defined i" and "i \<noteq> ''0x''"
    and "getCachedAssets is net = Inr assets"
    and "findMatchingFungibleAsset assets to = Some m"
    and "parseERC20Tx abi i = Some call"
    and "call = Transfer t amt \<or> call = TransferFrom f t amt"
  shows "atype (fields ann) = AssetTransfer
     \<and> recipientAddress (fields ann) = Some t
     \<and> senderAddress (fields ann) = Some (if call = TransferFrom f t amt then f else tx_from tx)
     \<and> (\<exists>ea. assetAmount (fields ann) = Some ea
           \<and> asset ea = SmartContractAsset m \<and> amount ea = amt
           \<and> decimalAmount ea = of_int amt / 10 ^ decimals m)"
proof -
  from assms(1) obtain b a2 a3 where st:
    "classify is ns abi net tx dd a2 = Inr a3"
    "attachSubannotations cs is ns abi net tx dd b a3 = Inr ann"
    by (rule resolveE)
  have tc: "isTransferCall (Some call)" using assms(8) by auto
  from classify_transfer [OF st(1) assms(2-7) tc] obtain toName where
    a3: "a3 = a2\<lparr>atype := AssetTransfer, transactionLogoURL := logoURLOf (Some m),
            senderAddress := Some (senderOfCall call (tx_from tx)),
            recipientAddress := Some (arg_to call), recipientName := toName,
            assetAmount := Some (enrichAssetAmountWithDecimalValues
               \<lparr>asset = SmartContractAsset m, amount = arg_amount call\<rparr> dd),
            warnings := (if sameEVMAddress (arg_to call) to then Some [SendToToken] else warnings a2)\<rparr>"
    by blast
  have f: "fields ann = a3" using st(2) by (rule attach_fields)
  show ?thesis
    using a3 f assms(8) by (auto simp: enrichAssetAmountWithDecimalValues_def)
qed

text \<open>
  The DAI \<^verbatim>\<open>transfer\<close> of 500 base units to Bob: an asset transfer from the transaction's
  sender to Bob of 500 / 10^18 DAI. The DAI \<^verbatim>\<open>transferFrom\<close> from Alice to Bob: an asset
  transfer from Alice, not from the transaction's sender.
\<close>

theorem erc20_transfer_annotation_witness:
  "atype (fields (projr (resolveTransactionAnnotation (exampleChain 5000) exampleIndexing
      exampleNames exampleDecoders mainnet (daiTransferRequest bobAddress) 2 1000)))
     = AssetTransfer
   \<and> recipientAddress (fields (projr (resolveTransactionAnnotation (exampleChain 5000)
      exampleIndexing exampleNames exampleDecoders mainnet (daiTransferRequest bobAddress)
      2 1000))) = Some bobAddress
   \<and> senderAddress (fields (projr (resolveTransactionAnnotation (exampleChain 5000)
      exampleIndexing exampleNames exampleDecoders mainnet (daiTransferRequest bobAddress)
      2 1000))) = Some trackedAddress
   \<and> map_option decimalAmount (assetAmount (fields (projr (resolveTransactionAnnotation
      (exampleChain 5000) exampleIndexing exampleNames exampleDecoders mainnet
      (daiTransferRequest bobAddress) 2 1000)))) = Some (500 / 10 ^ 18)
   \<and> atype (fields (projr (resolveTransactionAnnotation (exampleChain 5000) exampleIndexing
      exampleNames exampleDecoders mainnet daiTransferFromCall 2 1000))) = AssetTransfer
   \<and> recipientAddress (fields (projr (resolveTransactionAnnotation (exampleChain 5000)
      exampleIndexing exampleNames exampleDecoders mainnet daiTransferFromCall 2 1000)))
     = Some bobAddress
   \<and> senderAddress (fields (projr (resolveTransactionAnnotation (exampleChain 5000)
      exampleIndexing exampleNames exampleDecoders mainnet daiTransferFromCall 2 1000)))
     = Some aliceAddress"
proof -
  let ?r = "resolveTransactionAnnotation (exampleChain 5000) exampleIndexing exampleNames
      exampleDecoders mainnet (daiTransferRequest bobAddress) 2 1000"
  let ?f = "resolveTransactionAnnotation (exampleChain 5000) exampleIndexing exampleNames
      exampleDecoders mainnet daiTransferFromCall 2 1000"
  have r: "?r = Inr (projr ?r)" by (rule Inr_projr) (rule daiTransferToBob_result)
  have f: "?f = Inr (projr ?f)" by (rule Inr_projr) (rule daiTransferFromCall_result)
  have h: "tx_to (daiTransferRequest bobAddress) = Some daiAddress"
    "tx_input (daiTransferRequest bobAddress) = Defined (transferCallData bobAddress amount500)"
    "tx_from (daiTransferRequest bobAddress) = trackedAddress"
    by (simp_all add: daiTransferRequest_def)
  have g: "tx_to daiTransferFromCall = Some daiAddress"
    "tx_input daiTransferFromCall
       = Defined (transferFromCallData aliceAddress bobAddress amount500)"
    by (simp_all add: daiTransferFromCall_def)
  have i: "transferCallData bobAddress amount500 \<noteq> ''0x''"
    "transferFromCallData aliceAddress bobAddress amount500 \<noteq> ''0x''"
    by (simp_all add: transferCallData_def transferFromCallData_def)
  have p: "parseERC20Tx exampleDecoders (transferCallData bobAddress amount500)
      = Some (Transfer bobAddress 500)"
    "parseERC20Tx exampleDecoders (transferFromCallData aliceAddress bobAddress amount500)
      = Some (TransferFrom aliceAddress bobAddress 500)"
    by (simp_all add: exampleDecoders_def parse_examples)
  have c: "Transfer bobAddress 500 = Transfer bobAddress 500
      \<or> Transfer bobAddress 500 = TransferFrom [] bobAddress 500"
    "TransferFrom aliceAddress bobAddress 500 = Transfer bobAddress 500
      \<or> TransferFrom aliceAddress bobAddress 500 = TransferFrom aliceAddress bobAddress 500"
    by simp_all
  from erc20_transfer_annotation
    [OF r h(1,2) i(1) exampleIndexing_simps catalog_examples(1) p(1) c(1)]
  have 1: "atype (fields (projr ?r)) = AssetTransfer
     \<and> recipientAddress (fields (projr ?r)) = Some bobAddress
     \<and> senderAddress (fields (projr ?r)) = Some trackedAddress
     \<and> map_option decimalAmount (assetAmount (fields (projr ?r))) = Some (500 / 10 ^ 18)"
    by (auto simp: h(3) dai_def)
  from erc20_transfer_annotation
    [OF f g(1,2) i(2) exampleIndexing_simps catalog_examples(1) p(2) c(2)]
  have 2: "atype (fields (projr ?f)) = AssetTransfer
     \<and> recipientAddress (fields (projr ?f)) = Some bobAddress
     \<and> senderAddress (fields (projr ?f)) = Some aliceAddress"
    by auto
  from 1 2 show ?thesis by (simp only: simp_thms)
qed

text \<open>
  Claim C7. For a decoded \<^verbatim>\<open>transfer\<close> or \<^verbatim>\<open>transferFrom\<close> on a catalog asset, the warning
  list contains send-to-token exactly when the decoded recipient is, up to letter case,
  the token's own contract address.
\<close>

theorem send_to_token_warning_iff:
  assumes "resolveTransactionAnnotation cs is ns abi net tx dd now = Inr ann"
    and "tx_to tx = Some to"
    and "tx_input tx = Defined i" and "i \<noteq> ''0x''"
    and "getCachedAssets is net = Inr assets"
    and "findMatchingFungibleAsset assets to = Some m"
    and "parseERC20Tx abi i = Some call"
    and "call = Transfer t amt \<or> call = TransferFrom f t amt"
  shows "SendToToken \<in> set (warningsOf (fields ann)) \<longleftrightarrow> sameEVMAddress t (asset_contractAddress m)"
proof -
  from assms(1) obtain a1 b a2 a3 where st:
    "checkFunds cs net tx (defaultAnnotation now) = Inr a1"
    "fetchBlock cs net tx a1 = Inr (b, a2)"
    "classify is ns abi net tx dd a2 = Inr a3"
    "attachSubannotations cs is ns abi net tx dd b a3 = Inr ann"
    by (rule resolveE)
  have w: "warnings a2 = None \<or> warnings a2 = Some [InsufficientFunds]"
    using warningsOf_stage [OF st(1,2)] by auto
  have tc: "isTransferCall (Some call)" using assms(8) by auto
  from classify_transfer [OF st(3) assms(2-7) tc]
  have a3: "warnings a3 = (if sameEVMAddress (arg_to call) to then Some [SendToToken] else warnings a2)"
    by auto
  have f: "fields ann = a3" using st(4) by (rule attach_fields)
  have same: "sameEVMAddress t (asset_contractAddress m) \<longleftrightarrow> sameEVMAddress t to"
    using findMatching_same [OF assms(6)] by (auto simp: sameEVMAddress_def)
  have t: "arg_to call = t" using assms(8) by auto
  show ?thesis
    using a3 f w same t by (auto simp: warningsOf_def)
qed

text \<open>
  The DAI \<^verbatim>\<open>transfer\<close> to the DAI contract is warned about; the one to Bob is not.
\<close>

theorem send_to_token_warning_iff_witness:
  "sameEVMAddress ''0x6b175474e89094c44da98b954eedeac495271d0f'' (asset_contractAddress dai)
   \<and> SendToToken \<in> set (warningsOf (fields (projr (resolveTransactionAnnotation
        (exampleChain 5000) exampleIndexing exampleNames exampleDecoders mainnet
        (daiTransferRequest daiAddress) 2 1000))))
   \<and> \<not> sameEVMAddress bobAddress (asset_contractAddress dai)
   \<and> SendToToken \<notin> set (warningsOf (fields (projr (resolveTransactionAnnotation
        (exampleChain 5000) exampleIndexing exampleNames exampleDecoders mainnet
        (daiTransferRequest bobAddress) 2 1000))))"
proof -
  let ?r = "resolveTransactionAnnotation (exampleChain 5000) exampleIndexing exampleNames
      exampleDecoders mainnet (daiTransferRequest daiAddress) 2 1000"
  let ?b = "resolveTransactionAnnotation (exampleChain 5000) exampleIndexing exampleNames
      exampleDecoders mainnet (daiTransferRequest bobAddress) 2 1000"
  have r: "?r = Inr (projr ?r)" by (rule Inr_projr) (rule daiTransferToToken_result)
  have b: "?b = Inr (projr ?b)" by (rule Inr_projr) (rule daiTransferToBob_result)
  have h: "tx_to (daiTransferRequest dst) = Some daiAddress"
    "tx_input (daiTransferRequest dst) = Defined (transferCallData dst amount500)" for dst
    by (simp_all add: daiTransferRequest_def)
  have i: "transferCallData dst amount500 \<noteq> ''0x''" for dst
    by (simp add: transferCallData_def)
  have p: "parseERC20Tx exampleDecoders (transferCallData daiAddress amount500)
      = Some (Transfer ''0x6b175474e89094c44da98b954eedeac495271d0f'' 500)"
    "parseERC20Tx exampleDecoders (transferCallData bobAddress amount500)
      = Some (Transfer bobAddress 500)"
    by (simp_all add: exampleDecoders_def parse_examples)
  have c: "Transfer t 500 = Transfer t 500 \<or> Transfer t 500 = TransferFrom [] t 500" for t
    by simp
  have s: "sameEVMAddress ''0x6b175474e89094c44da98b954eedeac495271d0f'' (asset_contractAddress dai)"
    "\<not> sameEVMAddress bobAddress (asset_contractAddress dai)"
    by (simp_all add: sameEVMAddress_def dai_def normalize_constants normalize_examples)
  from send_to_token_warning_iff
    [OF r h i exampleIndexing_simps catalog_examples(1) p(1) c] s(1)
  have 1: "SendToToken \<in> set (warningsOf (fields (projr ?r)))" by simp
  from send_to_token_warning_iff
    [OF b h i exampleIndexing_simps catalog_examples(1) p(2) c] s(2)
  have 2: "SendToToken \<notin> set (warningsOf (fields (projr ?b)))" by simp
  from s 1 2 show ?thesis by simp
qed

text \<open>
  Claim C3. For a request with the three gas fields, the warning list should contain
  insufficient-funds exactly when gas limit times maximum fee plus value exceeds the
  fetched balance, whichever classification follows. The DAI \<^verbatim>\<open>transfer\<close> to the DAI
  contract needs 60000 * 2 base units and the sender holds 5000, but the assignment at
  line 258 replaces the warning list: only send-to-token is left.
\<close>

theorem send_to_token_drops_insufficient_funds:
  "gasLimit (daiTransferRequest daiAddress) = Some 60000
   \<and> maxFeePerGas (daiTransferRequest daiAddress) = Some 2
   \<and> maxPriorityFeePerGas (daiTransferRequest daiAddress) = Some 1
   \<and> tx_value (daiTransferRequest daiAddress) = None
   \<and> getLatestBaseAccountBalance (exampleChain 5000)
        \<lparr>address = tx_from (daiTransferRequest daiAddress), network = mainnet\<rparr>
      = Inr \<lparr>balance_assetAmount = \<lparr>asset = BaseAsset ether, amount = 5000\<rparr>\<rparr>
   \<and> (60000 :: int) * 2 + 0 > 5000
   \<and> warningsOf (fields (projr (resolveTransactionAnnotation (exampleChain 5000) exampleIndexing
        exampleNames exampleDecoders mainnet (daiTransferRequest daiAddress) 2 1000)))
      = [SendToToken]
   \<and> \<not> isl (resolveTransactionAnnotation (exampleChain 5000) exampleIndexing
        exampleNames exampleDecoders mainnet (daiTransferRequest daiAddress) 2 1000)"
proof -
  have "warningsOf (fields (projr (resolveTransactionAnnotation (exampleChain 5000) exampleIndexing
        exampleNames exampleDecoders mainnet (daiTransferRequest daiAddress) 2 1000)))
      = [SendToToken]
   \<and> \<not> isl (resolveTransactionAnnotation (exampleChain 5000) exampleIndexing
        exampleNames exampleDecoders mainnet (daiTransferRequest daiAddress) 2 1000)"
    by (simp add: daiTransferToToken_result warningsOf_def)
  then show ?thesis
    by (simp add: daiTransferRequest_def exampleChain_simps)
qed

text \<open>
  Claim C8. The type tag of a returned annotation, and of each of its sub-annotations,
  determines the variant fields that are populated: the fields of the other variants are
  absent.
\<close>

theorem type_determines_fields:
  assumes "resolveTransactionAnnotation cs is ns abi net tx dd now = Inr ann"
  shows "variantFieldsOnly (fields ann)
     \<and> (\<forall>s \<in> set (subannotationsOf ann). variantFieldsOnly (fields s) \<and> subannotations s = None)"
proof -
  from assms(1) obtain a1 b a2 a3 where st:
    "checkFunds cs net tx (defaultAnnotation now) = Inr a1"
    "fetchBlock cs net tx a1 = Inr (b, a2)"
    "classify is ns abi net tx dd a2 = Inr a3"
    "attachSubannotations cs is ns abi net tx dd b a3 = Inr ann"
    by (rule resolveE)
  have "sharedOnly a2" using warningsOf_stage [OF st(1,2)] by simp
  with st(3) have "variantFieldsOnly a3" by (rule classify_variant)
  then have top: "variantFieldsOnly (fields ann)" using attach_fields [OF st(4)] by simp
  have subs: "variantFieldsOnly (fields s) \<and> subannotations s = None"
    if "s \<in> set (subannotationsOf ann)" for s
  proof (cases "logs tx")
    case None
    with st(4) that show ?thesis by (simp add: attach_no_logs)
  next
    case (Some ls)
    from attach_subannotations [OF st(4) Some] that show ?thesis
      using annotationsFromLogs_each by blast
  qed
  from top subs show ?thesis by blast
qed

text \<open>
  The mined call with its two sub-annotations: a contract interaction over two asset
  transfers, each with the fields of its own variant only.
\<close>

theorem type_determines_fields_witness:
  "variantFieldsOnly (fields (projr (resolveTransactionAnnotation (exampleChain 5000)
      exampleIndexing exampleNames exampleDecoders mainnet swapTransaction 2 1000)))
   \<and> length (subannotationsOf (projr (resolveTransactionAnnotation (exampleChain 5000)
      exampleIndexing exampleNames exampleDecoders mainnet swapTransaction 2 1000))) = 2
   \<and> list_all variantFieldsOnly (map fields (subannotationsOf (projr
      (resolveTransactionAnnotation (exampleChain 5000) exampleIndexing exampleNames
         exampleDecoders mainnet swapTransaction 2 1000))))"
proof -
  let ?r = "resolveTransactionAnnotation (exampleChain 5000) exampleIndexing exampleNames
      exampleDecoders mainnet swapTransaction 2 1000"
  have r: "?r = Inr (projr ?r)" by (rule Inr_projr) (rule swapTransaction_result)
  have l: "length (subannotationsOf (projr ?r)) = 2"
    by (simp add: swapTransaction_result subannotationsOf_def)
  from type_determines_fields [OF r] l show ?thesis
    by (simp add: list_all_iff)
qed

text \<open>
  Claim C10. When one of the gas limit, the maximum fee and the maximum priority fee is
  present and zero, the affordability check is skipped: the result does not depend on the
  balance collaborator, which is not called, and the warning list never contains
  insufficient-funds.
\<close>

theorem zero_gas_field_skips_funds_check:
  assumes "gasLimit tx = Some 0 \<or> maxFeePerGas tx = Some 0 \<or> maxPriorityFeePerGas tx = Some 0"
  shows "resolveTransactionAnnotation (cs\<lparr>getLatestBaseAccountBalance := bal\<rparr>) is ns abi net tx dd now
       = resolveTransactionAnnotation cs is ns abi net tx dd now
     \<and> (\<forall>ann. resolveTransactionAnnotation cs is ns abi net tx dd now = Inr ann
          \<longrightarrow> InsufficientFunds \<notin> set (warningsOf (fields ann)))"
proof -
  have skip: "checkFunds c net tx a = Inr a" for c a
    using assms by (auto simp: checkFunds_def truthy_bigint_def)
  have fb: "fetchBlock (cs\<lparr>getLatestBaseAccountBalance := bal\<rparr>) net tx a = fetchBlock cs net tx a" for a
    by (simp add: fetchBlock_def)
  have at: "attachSubannotations (cs\<lparr>getLatestBaseAccountBalance := bal\<rparr>) is ns abi net tx dd b a
      = attachSubannotations cs is ns abi net tx dd b a" for a b
  proof -
    have afl: "annotationsFromLogs (cs\<lparr>getLatestBaseAccountBalance := bal\<rparr>) is ns abi ls net dd t b
        = annotationsFromLogs cs is ns abi ls net dd t b" for ls t
      by (simp add: annotationsFromLogs_def split: sum.splits)
    show ?thesis by (simp add: attachSubannotations_def afl split: option.splits)
  qed
  have eq: "resolveTransactionAnnotation (cs\<lparr>getLatestBaseAccountBalance := bal\<rparr>) is ns abi net tx dd now
       = resolveTransactionAnnotation cs is ns abi net tx dd now"
    by (simp add: resolveTransactionAnnotation_def skip fb at split: sum.splits prod.splits)
  have nw: "InsufficientFunds \<notin> set (warningsOf (fields ann))"
    if r: "resolveTransactionAnnotation cs is ns abi net tx dd now = Inr ann" for ann
  proof -
    from r obtain a1 b a2 a3 where st:
      "checkFunds cs net tx (defaultAnnotation now) = Inr a1"
      "fetchBlock cs net tx a1 = Inr (b, a2)"
      "classify is ns abi net tx dd a2 = Inr a3"
      "attachSubannotations cs is ns abi net tx dd b a3 = Inr ann"
      by (rule resolveE)
    have "a1 = defaultAnnotation now" using st(1) skip by simp
    then have "warnings a2 = None"
      using warningsOf_stage [OF st(1,2)] by (simp add: defaultAnnotation_def)
    then have "warnings a3 = None \<or> warnings a3 = Some [SendToToken]"
      using classify_shared [OF st(3)] by auto
    then show ?thesis
      using attach_fields [OF st(4)] by (auto simp: warningsOf_def)
  qed
  from eq nw show ?thesis by blast
qed

text \<open>
  The plain transfer of 1000 with a zero gas limit, from a sender that holds nothing: the
  same result with a balance collaborator that rejects, and no warning.
\<close>

theorem zero_gas_field_skips_funds_check_witness:
  "gasLimit zeroGasRequest = Some 0
   \<and> resolveTransactionAnnotation
        ((exampleChain 0)\<lparr>getLatestBaseAccountBalance := rejectingBalance\<rparr>)
        exampleIndexing exampleNames exampleDecoders mainnet zeroGasRequest 2 1000
     = resolveTransactionAnnotation (exampleChain 0) exampleIndexing exampleNames
        exampleDecoders mainnet zeroGasRequest 2 1000
   \<and> InsufficientFunds \<notin> set (warningsOf (fields (projr (resolveTransactionAnnotation
        (exampleChain 0) exampleIndexing exampleNames exampleDecoders mainnet zeroGasRequest
        2 1000))))"
proof -
  let ?r = "resolveTransactionAnnotation (exampleChain 0) exampleIndexing exampleNames
      exampleDecoders mainnet zeroGasRequest 2 1000"
  have r: "?r = Inr (projr ?r)" by (rule Inr_projr) (rule plainRequest_results(3))
  have g: "gasLimit zeroGasRequest = Some 0" by (simp add: zeroGasRequest_def sendRequest_def)
  then have h: "gasLimit zeroGasRequest = Some 0 \<or> maxFeePerGas zeroGasRequest = Some 0
      \<or> maxPriorityFeePerGas zeroGasRequest = Some 0"
    by simp
  from zero_gas_field_skips_funds_check [OF h, where cs = "exampleChain 0"
      and bal = rejectingBalance and ns = exampleNames
      and abi = exampleDecoders and net = mainnet and dd = 2 and now = 1000] r g
  show ?thesis by metis
qed

section \<open>The wall-clock timestamp\<close>

lemma checkFunds_timestamp:
  "checkFunds cs net tx (a\<lparr>timestamp := t\<rparr>) =
   map_sum id (\<lambda>x. x\<lparr>timestamp := t\<rparr>) (checkFunds cs net tx a)"
  by (simp add: checkFunds_def pushWarning_def Let_def split: sum.splits)

lemma fetchBlock_timestamp:
  "fetchBlock cs net tx (a\<lparr>timestamp := t\<rparr>) =
   map_sum id (map_prod id (\<lambda>x. x\<lparr>timestamp := t\<rparr>)) (fetchBlock cs net tx a)"
  by (simp add: fetchBlock_def split: sum.splits)

lemma classify_timestamp:
  "classify is ns abi net tx dd (a\<lparr>timestamp := t\<rparr>) =
   map_sum id (\<lambda>x. x\<lparr>timestamp := t\<rparr>) (classify is ns abi net tx dd a)"
  by (simp add: classify_def Let_def split: sum.splits option.splits)

lemma subannotationsOfTransfer_timestamp:
  "subannotationsOfTransfer assets names dd t' b tr =
   map (setTimestamp t') (subannotationsOfTransfer assets names dd t b tr)"
  by (simp add: subannotationsOfTransfer_def split: option.splits)

lemma annotationsFromLogs_timestamp:
  "annotationsFromLogs cs is ns abi ls net dd t' b =
   map_sum id (map (setTimestamp t')) (annotationsFromLogs cs is ns abi ls net dd t b)"
proof -
  have "concat (map (subannotationsOfTransfer assets names dd t' b) trs) =
        map (setTimestamp t') (concat (map (subannotationsOfTransfer assets names dd t b) trs))"
    for assets names trs
    by (induction trs) (simp_all add: subannotationsOfTransfer_timestamp [of _ _ _ t' _ _ t])
  then show ?thesis
    by (simp add: annotationsFromLogs_def Let_def split: sum.splits)
qed

lemma attach_timestamp:
  "attachSubannotations cs is ns abi net tx dd b (a\<lparr>timestamp := t\<rparr>) =
   map_sum id (setTimestamp t) (attachSubannotations cs is ns abi net tx dd b a)"
proof (cases "logs tx")
  case None
  then show ?thesis by (simp add: attachSubannotations_def)
next
  case (Some ls)
  show ?thesis
    using annotationsFromLogs_timestamp [of cs "is" ns abi ls net dd t b "timestamp a"]
    by (simp add: attachSubannotations_def Some split: sum.splits)
qed

lemma defaultAnnotation_timestamp:
  "defaultAnnotation now' = (defaultAnnotation now)\<lparr>timestamp := now'\<rparr>"
  by (simp add: defaultAnnotation_def)

text \<open>
  Claim C9. Two runs on the same transaction with the same collaborator responses differ
  at most in the wall-clock timestamp: the run that reads the clock value \<open>now'\<close>
  returns what the run that reads \<open>now\<close> returns, with the timestamp of the annotation
  and of each sub-annotation replaced by \<open>now'\<close>, and fails exactly when the other fails,
  with the same failure.
\<close>

theorem resolve_timestamp_only:
  "resolveTransactionAnnotation cs is ns abi net tx dd now' =
   map_sum id (setTimestamp now') (resolveTransactionAnnotation cs is ns abi net tx dd now)"
  unfolding resolveTransactionAnnotation_def defaultAnnotation_timestamp [of now' now]
    checkFunds_timestamp
  by (auto simp: fetchBlock_timestamp classify_timestamp attach_timestamp split: sum.splits)

section \<open>Sub-annotations and collaborator failures\<close>

lemma annotationsFromLogs_names:
  assumes "annotationsFromLogs cs is ns abi ls net dd t b = Inr subs"
    "getAccountsToTrack cs = Inr accounts" "s \<in> set subs"
  shows "recipientName (fields s) =
     namesByAddress ns net
       (getDistinctRecipentAddressesFromERC20Logs
          (getERC20LogsForAddresses (tokenTransferLogs abi ls) (map address accounts)))
       (normalizeEVMAddress (the (recipientAddress (fields s))))"
  using assms
  by (auto simp: annotationsFromLogs_def Let_def split: sum.splits dest!: subannotation_props)

text \<open>
  Claim C1, amended. The sub-annotations are, in order, one asset transfer for each parsed
  transfer whose contract address matches a catalog asset, whether or not the transfer
  touches a tracked account; the tracked accounts only select the recipients whose names
  are looked up.
\<close>

theorem subannotation_per_catalog_transfer:
  assumes "resolveTransactionAnnotation cs is ns abi net tx dd now = Inr ann"
    and "logs tx = Some ls"
    and "getCachedAssets is net = Inr assets"
    and "getAccountsToTrack cs = Inr accounts"
  shows "map annotationTransfer (subannotationsOf ann) =
       map transferOf
         (filter (\<lambda>tr. findMatchingFungibleAsset assets (transfer_contractAddress tr) \<noteq> None)
            (tokenTransferLogs abi ls))
     \<and> (\<forall>s \<in> set (subannotationsOf ann).
          atype (fields s) = AssetTransfer
          \<and> recipientName (fields s) =
              namesByAddress ns net
                (getDistinctRecipentAddressesFromERC20Logs
                   (getERC20LogsForAddresses (tokenTransferLogs abi ls) (map address accounts)))
                (normalizeEVMAddress (the (recipientAddress (fields s)))))"
proof -
  from assms(1) obtain a1 b a2 a3 where st:
    "checkFunds cs net tx (defaultAnnotation now) = Inr a1"
    "fetchBlock cs net tx a1 = Inr (b, a2)"
    "classify is ns abi net tx dd a2 = Inr a3"
    "attachSubannotations cs is ns abi net tx dd b a3 = Inr ann"
    by (rule resolveE)
  have afl: "annotationsFromLogs cs is ns abi ls net dd (timestamp a3) b = Inr (subannotationsOf ann)"
    using st(4) assms(2) by (rule attach_subannotations)
  have one: "map annotationTransfer (subannotationsOf ann) =
       map transferOf
         (filter (\<lambda>tr. findMatchingFungibleAsset assets (transfer_contractAddress tr) \<noteq> None)
            (tokenTransferLogs abi ls))"
    using afl assms(3) by (rule annotationsFromLogs_transfers)
  have each: "atype (fields s) = AssetTransfer" if "s \<in> set (subannotationsOf ann)" for s
    using annotationsFromLogs_each [OF afl that] by simp
  have nm: "recipientName (fields s) =
              namesByAddress ns net
                (getDistinctRecipentAddressesFromERC20Logs
                   (getERC20LogsForAddresses (tokenTransferLogs abi ls) (map address accounts)))
                (normalizeEVMAddress (the (recipientAddress (fields s))))"
    if "s \<in> set (subannotationsOf ann)" for s
    using afl assms(4) that by (rule annotationsFromLogs_names)
  from one each nm show ?thesis by blast
qed

text \<open>
  The tracked-account filter keeps the WETH deposit only, yet the DAI transfer from Alice
  to Bob, which touches no tracked account, has its sub-annotation.
\<close>

theorem untracked_transfer_is_annotated:
  "getERC20LogsForAddresses (tokenTransferLogs exampleDecoders swapLogs) [trackedAddress] =
     [\<lparr>transfer_contractAddress = wethAddress, transfer_amount = 16,
       transfer_senderAddress = wethAddress,
       transfer_recipientAddress = ''0xd8da6bf26964af9d7eed9e03e53415d37aa96045''\<rparr>]
   \<and> map annotationTransfer (subannotationsOf (projr
        (resolveTransactionAnnotation (exampleChain 5000) exampleIndexing exampleNames
           exampleDecoders mainnet swapTransaction 2 1000))) =
     [(Some aliceAddress, Some bobAddress, Some 32),
      (Some wethAddress, Some ''0xd8da6bf26964af9d7eed9e03e53415d37aa96045'', Some 16)]
   \<and> \<not> isl (resolveTransactionAnnotation (exampleChain 5000) exampleIndexing exampleNames
        exampleDecoders mainnet swapTransaction 2 1000)"
  by (simp add: swapLogs_relevant swapTransaction_result subannotationsOf_def
      annotationTransfer_def enrichAssetAmountWithDecimalValues_def)

text \<open>
  The mined call: of its three logs, the two that are transfers of catalog assets have one
  sub-annotation each, and the third log has none.
\<close>

theorem subannotation_per_catalog_transfer_witness:
  "map annotationTransfer (subannotationsOf (projr (resolveTransactionAnnotation
      (exampleChain 5000) exampleIndexing exampleNames exampleDecoders mainnet swapTransaction
      2 1000))) =
     [(Some aliceAddress, Some bobAddress, Some 32),
      (Some wethAddress, Some ''0xd8da6bf26964af9d7eed9e03e53415d37aa96045'', Some 16)]
   \<and> list_all (\<lambda>s. atype (fields s) = AssetTransfer) (subannotationsOf (projr
      (resolveTransactionAnnotation (exampleChain 5000) exampleIndexing exampleNames
         exampleDecoders mainnet swapTransaction 2 1000)))"
proof -
  let ?r = "resolveTransactionAnnotation (exampleChain 5000) exampleIndexing exampleNames
      exampleDecoders mainnet swapTransaction 2 1000"
  have r: "?r = Inr (projr ?r)" by (rule Inr_projr) (rule swapTransaction_result)
  have l: "logs swapTransaction = Some swapLogs" by (simp add: swapTransaction_def)
  from subannotation_per_catalog_transfer
    [OF r l exampleIndexing_simps exampleChain_simps(1)]
  show ?thesis
    by (simp add: swapLogs_transfers catalog_examples transferOf_def list_all_iff)
qed

lemma sorted_annotatedLogIndices: "sorted_wrt (<) (annotatedLogIndices dec assets ls)"
  unfolding annotatedLogIndices_def by (rule sorted_wrt_filter) simp

text \<open>
  Claim C4, amended. The sub-annotations derived from standard transfer logs come first,
  in the order of their logs, followed by those derived from wrapped deposit and
  withdrawal logs, in the order of their logs.
\<close>

theorem subannotations_grouped_by_log_shape:
  assumes "resolveTransactionAnnotation cs is ns abi net tx dd now = Inr ann"
    and "logs tx = Some ls"
    and "getCachedAssets is net = Inr assets"
  shows "map annotationTransfer (subannotationsOf ann) =
       map (\<lambda>i. transferOf (the (decodeERC20TransferLog abi (ls ! i))))
         (annotatedLogIndices (decodeERC20TransferLog abi) assets ls)
       @ map (\<lambda>i. transferOf (the (decodeWrappedLog abi (ls ! i))))
           (annotatedLogIndices (decodeWrappedLog abi) assets ls)
     \<and> sorted_wrt (<) (annotatedLogIndices (decodeERC20TransferLog abi) assets ls)
     \<and> sorted_wrt (<) (annotatedLogIndices (decodeWrappedLog abi) assets ls)"
proof -
  from assms(1) obtain a1 b a2 a3 where st:
    "checkFunds cs net tx (defaultAnnotation now) = Inr a1"
    "fetchBlock cs net tx a1 = Inr (b, a2)"
    "classify is ns abi net tx dd a2 = Inr a3"
    "attachSubannotations cs is ns abi net tx dd b a3 = Inr ann"
    by (rule resolveE)
  have afl: "annotationsFromLogs cs is ns abi ls net dd (timestamp a3) b = Inr (subannotationsOf ann)"
    using st(4) assms(2) by (rule attach_subannotations)
  have "map annotationTransfer (subannotationsOf ann) =
       map transferOf
         (filter (\<lambda>tr. findMatchingFungibleAsset assets (transfer_contractAddress tr) \<noteq> None)
            (tokenTransferLogs abi ls))"
    using afl assms(3) by (rule annotationsFromLogs_transfers)
  also have "filter (\<lambda>tr. findMatchingFungibleAsset assets (transfer_contractAddress tr) \<noteq> None)
            (tokenTransferLogs abi ls) =
       map (\<lambda>i. the (decodeERC20TransferLog abi (ls ! i)))
         (annotatedLogIndices (decodeERC20TransferLog abi) assets ls)
       @ map (\<lambda>i. the (decodeWrappedLog abi (ls ! i)))
           (annotatedLogIndices (decodeWrappedLog abi) assets ls)"
    unfolding tokenTransferLogs_def parseLogsForERC20Transfers_def
      parseLogsForWrappedDepositsAndWithdrawals_def filter_append map_filter_indices
      annotatedLogIndices_def
    by (rule refl)
  finally have "map annotationTransfer (subannotationsOf ann) =
       map (\<lambda>i. transferOf (the (decodeERC20TransferLog abi (ls ! i))))
         (annotatedLogIndices (decodeERC20TransferLog abi) assets ls)
       @ map (\<lambda>i. transferOf (the (decodeWrappedLog abi (ls ! i))))
           (annotatedLogIndices (decodeWrappedLog abi) assets ls)"
    by (simp only: map_append map_map comp_def)
  then show ?thesis by (simp only: sorted_annotatedLogIndices simp_thms)
qed

text \<open>
  The WETH deposit is log 0 and the DAI transfer is log 2, and the sub-annotation of the DAI
  transfer comes first.
\<close>

theorem interleaved_logs_reordered:
  "exampleDecodeWrappedLog (swapLogs ! 0) =
     Some \<lparr>transfer_contractAddress = wethAddress, transfer_amount = 16,
           transfer_senderAddress = wethAddress,
           transfer_recipientAddress = ''0xd8da6bf26964af9d7eed9e03e53415d37aa96045''\<rparr>
   \<and> exampleDecodeTransferLog (swapLogs ! 2) =
     Some \<lparr>transfer_contractAddress = daiAddress, transfer_amount = 32,
           transfer_senderAddress = aliceAddress, transfer_recipientAddress = bobAddress\<rparr>
   \<and> map_sum id (map annotationTransfer)
       (annotationsFromLogs (exampleChain 5000) exampleIndexing exampleNames exampleDecoders
          swapLogs mainnet 2 1000 None) =
     Inr [(Some aliceAddress, Some bobAddress, Some 32),
          (Some wethAddress, Some ''0xd8da6bf26964af9d7eed9e03e53415d37aa96045'', Some 16)]"
proof -
  have "exampleDecodeWrappedLog (swapLogs ! 0) =
     Some \<lparr>transfer_contractAddress = wethAddress, transfer_amount = 16,
           transfer_senderAddress = wethAddress,
           transfer_recipientAddress = ''0xd8da6bf26964af9d7eed9e03e53415d37aa96045''\<rparr>"
    "exampleDecodeTransferLog (swapLogs ! 2) =
     Some \<lparr>transfer_contractAddress = daiAddress, transfer_amount = 32,
           transfer_senderAddress = aliceAddress, transfer_recipientAddress = bobAddress\<rparr>"
    by (simp_all add: swapLogs_def decode_examples word32_examples hexToInt_examples)
  moreover have "map_sum id (map annotationTransfer)
       (annotationsFromLogs (exampleChain 5000) exampleIndexing exampleNames exampleDecoders
          swapLogs mainnet 2 1000 None) =
     Inr [(Some aliceAddress, Some bobAddress, Some 32),
          (Some wethAddress, Some ''0xd8da6bf26964af9d7eed9e03e53415d37aa96045'', Some 16)]"
    by (simp add: swapLogs_subannotations annotationTransfer_def
        enrichAssetAmountWithDecimalValues_def)
  ultimately show ?thesis by (simp only: simp_thms)
qed

text \<open>
  The mined call: the standard transfer log at position 2 first, then the wrapped deposit
  log at position 0.
\<close>

theorem subannotations_grouped_by_log_shape_witness:
  "annotatedLogIndices (decodeERC20TransferLog exampleDecoders) catalog swapLogs = [2]
   \<and> annotatedLogIndices (decodeWrappedLog exampleDecoders) catalog swapLogs = [0]
   \<and> map annotationTransfer (subannotationsOf (projr (resolveTransactionAnnotation
      (exampleChain 5000) exampleIndexing exampleNames exampleDecoders mainnet swapTransaction
      2 1000))) =
     [transferOf (the (decodeERC20TransferLog exampleDecoders (swapLogs ! 2))),
      transferOf (the (decodeWrappedLog exampleDecoders (swapLogs ! 0)))]"
proof -
  let ?r = "resolveTransactionAnnotation (exampleChain 5000) exampleIndexing exampleNames
      exampleDecoders mainnet swapTransaction 2 1000"
  have r: "?r = Inr (projr ?r)" by (rule Inr_projr) (rule swapTransaction_result)
  have l: "logs swapTransaction = Some swapLogs" by (simp add: swapTransaction_def)
  have i: "annotatedLogIndices (decodeERC20TransferLog exampleDecoders) catalog swapLogs = [2]"
    "annotatedLogIndices (decodeWrappedLog exampleDecoders) catalog swapLogs = [0]"
    by (simp_all add: annotatedLogIndices_def swapLogs_def exampleDecoders_def upt_rec
        decode_examples word32_examples hexToInt_examples catalog_examples)
  from subannotations_grouped_by_log_shape [OF r l exampleIndexing_simps] i
  show ?thesis by simp
qed

lemma checkFunds_success:
  assumes "truthy_bigint (gasLimit tx) \<and> truthy_bigint (maxFeePerGas tx)
      \<and> truthy_bigint (maxPriorityFeePerGas tx) \<longrightarrow>
    (\<exists>bal. getLatestBaseAccountBalance cs \<lparr>address = tx_from tx, network = net\<rparr> = Inr bal)"
  shows "\<exists>a'. checkFunds cs net tx a = Inr a'"
  using assms by (auto simp: checkFunds_def Let_def)

lemma fetchBlock_success:
  assumes "\<forall>h. blockHash tx = Some h \<longrightarrow> (\<exists>blk. getBlockData cs net h = Inr blk)"
  shows "\<exists>b a'. fetchBlock cs net tx a = Inr (b, a')"
  using assms by (cases "blockHash tx") (auto simp: fetchBlock_def truthy_string_def)

lemma lookUpNameOf_success:
  assumes "\<exists>r. lookUpName ns \<lparr>address = addr, network = net\<rparr> = Inr r"
  shows "\<exists>n. lookUpNameOf ns net addr = Inr n"
  using assms by (auto simp: lookUpNameOf_def)

lemma classify_success:
  assumes "\<exists>assets. getCachedAssets is net = Inr assets"
    and "\<forall>addr \<in> set (primaryLookupAddresses abi tx).
           \<exists>r. lookUpName ns \<lparr>address = addr, network = net\<rparr> = Inr r"
  shows "\<exists>a'. classify is ns abi net tx dd a = Inr a'"
proof (cases "tx_to tx")
  case None
  then show ?thesis by (simp add: classify_def)
next
  case (Some to)
  from assms(1) obtain assets where as: "getCachedAssets is net = Inr assets" by blast
  have to: "\<exists>n. lookUpNameOf ns net to = Inr n"
    using assms(2) Some by (intro lookUpNameOf_success) (simp add: primaryLookupAddresses_def)
  show ?thesis
  proof (cases "noInput (tx_input tx)")
    case True
    with to Some show ?thesis by (auto simp: classify_def split: option.splits)
  next
    case False
    then obtain i where i: "tx_input tx = Defined i" by (cases "tx_input tx") auto
    show ?thesis
    proof (cases "parseERC20Tx abi i")
      case None
      with to Some False i as show ?thesis by (auto simp: classify_def Let_def)
    next
      case (Some call)
      have arg: "\<exists>n. lookUpNameOf ns net x = Inr n"
        if "x \<in> set (case call of Transfer t a \<Rightarrow> [t] | TransferFrom f t a \<Rightarrow> [t]
                        | Approve s v \<Rightarrow> [s] | OtherFunction n \<Rightarrow> [])" for x
        using assms(2) that \<open>tx_to tx = Some to\<close> i Some
        by (intro lookUpNameOf_success) (auto simp: primaryLookupAddresses_def)
      show ?thesis
        using to \<open>tx_to tx = Some to\<close> False i as Some arg
        by (cases call) (auto simp: classify_def Let_def)
    qed
  qed
qed

lemma annotationsFromLogs_success:
  assumes "\<exists>assets. getCachedAssets is net = Inr assets"
    and "\<exists>accounts. getAccountsToTrack cs = Inr accounts"
  shows "\<exists>subs. annotationsFromLogs cs is ns abi ls net dd t b = Inr subs"
  using assms by (auto simp: annotationsFromLogs_def Let_def)

lemma attach_success:
  assumes "\<exists>assets. getCachedAssets is net = Inr assets"
    and "\<exists>accounts. getAccountsToTrack cs = Inr accounts"
  shows "\<exists>ann. attachSubannotations cs is ns abi net tx dd b a = Inr ann"
proof (cases "logs tx")
  case None
  then show ?thesis by (simp add: attachSubannotations_def)
next
  case (Some ls)
  from annotationsFromLogs_success [OF assms, of ns abi ls dd "timestamp a" b]
  show ?thesis by (auto simp: attachSubannotations_def Some)
qed

lemma map_of_map_filter_Some:
  assumes "map_of (rev (List.map_filter f xs)) k = Some v"
  shows "\<exists>x \<in> set xs. f x = Some (k, v)"
proof -
  from assms have "(k, v) \<in> set (rev (List.map_filter f xs))" by (rule map_of_SomeD)
  then show ?thesis by (auto simp: List.map_filter_def)
qed

lemma namesByAddress_Some:
  assumes "namesByAddress ns net addrs k = Some n"
  shows "\<exists>addr r. lookUpName ns \<lparr>address = addr, network = net\<rparr> = Inr (Some r)
           \<and> resolved_name r = n \<and> normalizeEVMAddress addr = k"
proof -
  from assms obtain addr where "lookUpNameEntry ns net addr = Some (k, n)"
    unfolding namesByAddress_def by (blast dest: map_of_map_filter_Some)
  then show ?thesis
    by (auto simp: lookUpNameEntry_def split: sum.splits option.splits)
qed

lemma subannotation_name_source:
  assumes "annotationsFromLogs cs is ns abi ls net dd t b = Inr subs" "s \<in> set subs"
    "recipientName (fields s) = Some n"
  shows "\<exists>addr r. lookUpName ns \<lparr>address = addr, network = net\<rparr> = Inr (Some r)
           \<and> resolved_name r = n \<and> sameEVMAddress addr (the (recipientAddress (fields s)))"
proof -
  have "\<exists>assets addrs tr.
      s \<in> set (subannotationsOfTransfer assets (namesByAddress ns net addrs) dd t b tr)"
    using assms(1,2)
    by (fastforce simp: annotationsFromLogs_def Let_def split: sum.splits)
  then obtain assets addrs tr where
    mem: "s \<in> set (subannotationsOfTransfer assets (namesByAddress ns net addrs) dd t b tr)"
    by blast
  from subannotation_props [OF mem] have
    rn: "recipientName (fields s) =
           namesByAddress ns net addrs (normalizeEVMAddress (transfer_recipientAddress tr))" and
    ra: "recipientAddress (fields s) = Some (transfer_recipientAddress tr)"
    by simp_all
  from rn assms(3) have
    "namesByAddress ns net addrs (normalizeEVMAddress (transfer_recipientAddress tr)) = Some n"
    by simp
  from namesByAddress_Some [OF this] ra show ?thesis
    by (auto simp: sameEVMAddress_def)
qed

text \<open>
  Claim C2, amended. The entry point returns an annotation whenever the balance fetch, the
  block fetch, the catalog fetch, the tracked-account fetch and the name lookups of the
  primary classification succeed, whatever the name lookups for the recipients of log
  transfers do: a sub-annotation carries a recipient name only when a lookup for an
  address equal to its recipient, up to letter case, returned that name.
\<close>

theorem log_name_lookup_failures_absorbed:
  assumes "truthy_bigint (gasLimit tx) \<and> truthy_bigint (maxFeePerGas tx)
      \<and> truthy_bigint (maxPriorityFeePerGas tx) \<longrightarrow>
    (\<exists>bal. getLatestBaseAccountBalance cs \<lparr>address = tx_from tx, network = net\<rparr> = Inr bal)"
    and "\<forall>h. blockHash tx = Some h \<longrightarrow> (\<exists>blk. getBlockData cs net h = Inr blk)"
    and "\<exists>assets. getCachedAssets is net = Inr assets"
    and "\<exists>accounts. getAccountsToTrack cs = Inr accounts"
    and "\<forall>addr \<in> set (primaryLookupAddresses abi tx).
           \<exists>r. lookUpName ns \<lparr>address = addr, network = net\<rparr> = Inr r"
  shows "\<exists>ann. resolveTransactionAnnotation cs is ns abi net tx dd now = Inr ann
     \<and> (\<forall>s \<in> set (subannotationsOf ann). \<forall>n. recipientName (fields s) = Some n \<longrightarrow>
          (\<exists>addr r. lookUpName ns \<lparr>address = addr, network = net\<rparr> = Inr (Some r)
             \<and> resolved_name r = n
             \<and> sameEVMAddress addr (the (recipientAddress (fields s)))))"
proof -
  from checkFunds_success [OF assms(1)] obtain a1 where
    s1: "checkFunds cs net tx (defaultAnnotation now) = Inr a1" by blast
  from fetchBlock_success [OF assms(2)] obtain b a2 where
    s2: "fetchBlock cs net tx a1 = Inr (b, a2)" by blast
  from classify_success [OF assms(3,5)] obtain a3 where
    s3: "classify is ns abi net tx dd a2 = Inr a3" by blast
  from attach_success [OF assms(3,4)] obtain ann where
    s4: "attachSubannotations cs is ns abi net tx dd b a3 = Inr ann" by blast
  have r: "resolveTransactionAnnotation cs is ns abi net tx dd now = Inr ann"
    by (simp add: resolveTransactionAnnotation_def s1 s2 s3 s4)
  have nm: "\<exists>addr r. lookUpName ns \<lparr>address = addr, network = net\<rparr> = Inr (Some r)
             \<and> resolved_name r = n \<and> sameEVMAddress addr (the (recipientAddress (fields s)))"
    if "s \<in> set (subannotationsOf ann)" "recipientName (fields s) = Some n" for s n
  proof (cases "logs tx")
    case None
    with s4 that(1) show ?thesis by (simp add: attach_no_logs)
  next
    case (Some ls)
    from attach_subannotations [OF s4 Some] that show ?thesis
      by (rule subannotation_name_source)
  qed
  from r nm show ?thesis by blast
qed

text \<open>
  A balance fetch that rejects is not caught, and neither is a name lookup that rejects
  during the primary classification: the entry point fails with the rejection.
\<close>

theorem rejected_name_lookup_escapes:
  "resolveTransactionAnnotation
        ((exampleChain 5000)\<lparr>getLatestBaseAccountBalance := rejectingBalance\<rparr>)
        exampleIndexing exampleNames exampleDecoders mainnet sendRequest 2 1000
     = Inl (Rejected ''unavailable'')
   \<and> lookUpName rejectingNames \<lparr>address = aliceAddress, network = mainnet\<rparr>
     = Inl (Rejected ''timeout'')
   \<and> resolveTransactionAnnotation (exampleChain 5000) exampleIndexing rejectingNames
        exampleDecoders mainnet sendRequest 2 1000 = Inl (Rejected ''timeout'')"
proof (intro conjI)
  show "resolveTransactionAnnotation
        ((exampleChain 5000)\<lparr>getLatestBaseAccountBalance := rejectingBalance\<rparr>)
        exampleIndexing exampleNames exampleDecoders mainnet sendRequest 2 1000
     = Inl (Rejected ''unavailable'')"
    by (simp add: resolveTransactionAnnotation_def checkFunds_def truthy_bigint_def
        sendRequest_def rejectingBalance_def)
  show "lookUpName rejectingNames \<lparr>address = aliceAddress, network = mainnet\<rparr>
     = Inl (Rejected ''timeout'')"
    by (simp add: rejectingNames_def)
  show "resolveTransactionAnnotation (exampleChain 5000) exampleIndexing rejectingNames
        exampleDecoders mainnet sendRequest 2 1000 = Inl (Rejected ''timeout'')"
    by (rule sendRequest_rejected)
qed

text \<open>
  The mined call, with its gas fields, and a name service that answers for Alice and
  rejects every other lookup, the one for the recipient of the WETH deposit included: an
  annotation is returned.
\<close>

theorem log_name_lookup_failures_absorbed_witness:
  "lookUpName flakyNames \<lparr>address = ''0xd8da6bf26964af9d7eed9e03e53415d37aa96045'',
       network = mainnet\<rparr> = Inl (Rejected ''timeout'')
   \<and> \<not> isl (resolveTransactionAnnotation (exampleChain 5000) exampleIndexing flakyNames
        exampleDecoders mainnet pricedSwapTransaction 2 1000)"
proof -
  have t: "truthy_bigint (gasLimit pricedSwapTransaction)
      \<and> truthy_bigint (maxFeePerGas pricedSwapTransaction)
      \<and> truthy_bigint (maxPriorityFeePerGas pricedSwapTransaction)"
    "blockHash pricedSwapTransaction = Some ''0xb10c''"
    by (simp_all add: pricedSwapTransaction_def swapTransaction_def truthy_bigint_def)
  have 1: "truthy_bigint (gasLimit pricedSwapTransaction)
      \<and> truthy_bigint (maxFeePerGas pricedSwapTransaction)
      \<and> truthy_bigint (maxPriorityFeePerGas pricedSwapTransaction) \<longrightarrow>
    (\<exists>bal. getLatestBaseAccountBalance (exampleChain 5000)
      \<lparr>address = tx_from pricedSwapTransaction, network = mainnet\<rparr> = Inr bal)"
    by (simp add: exampleChain_simps)
  have 2: "\<forall>h. blockHash pricedSwapTransaction = Some h \<longrightarrow>
      (\<exists>blk. getBlockData (exampleChain 5000) mainnet h = Inr blk)"
    by (simp add: exampleChain_simps)
  have 3: "\<exists>assets. getCachedAssets exampleIndexing mainnet = Inr assets"
    by (simp add: exampleIndexing_simps)
  have 4: "\<exists>accounts. getAccountsToTrack (exampleChain 5000) = Inr accounts"
    by (simp add: exampleChain_simps)
  have 5: "\<forall>addr \<in> set (primaryLookupAddresses exampleDecoders pricedSwapTransaction).
      \<exists>r. lookUpName flakyNames \<lparr>address = addr, network = mainnet\<rparr> = Inr r"
    by (simp add: primaryLookupAddresses_def pricedSwapTransaction_def swapTransaction_def
        exampleDecoders_def parse_examples flakyNames_def)
  have 6: "lookUpName flakyNames \<lparr>address = ''0xd8da6bf26964af9d7eed9e03e53415d37aa96045'',
       network = mainnet\<rparr> = Inl (Rejected ''timeout'')"
    by (simp add: flakyNames_def aliceAddress_def)
  from log_name_lookup_failures_absorbed [OF 1 2 3 4 5, of 2 1000] 6 t
  show ?thesis by auto
qed

end
